theory Spec2Isabelle
  imports Complex_Main
begin

section \<open>JavaScript values\<close>

text \<open>
  The client works on loosely typed values decoded from JSON. A number is an IEEE double;
  every finite double is a rational, and a JSON literal too large for a double decodes to an
  infinity. NaN cannot come out of a JSON decoder and is not a value here. A string is the
  list of its code units; \<^typ>\<open>char\<close> covers the code units below 256. An object is
  the association list of its own properties, the first binding of a key being the one
  that is read.
\<close>

datatype jsnum = Fin rat | PosInf | NegInf

datatype json =
    JUndefined
  | JNull
  | JBool bool
  | JNum jsnum
  | JStr string
  | JArr "json list"
  | JObj "(string \<times> json) list"

text \<open>ToBoolean, as \<open>!v\<close>, \<open>a || b\<close> and \<open>if (v)\<close> apply it.\<close>

fun truthy :: "json \<Rightarrow> bool" where
  "truthy JUndefined = False"
| "truthy JNull = False"
| "truthy (JBool b) = b"
| "truthy (JNum n) = (n \<noteq> Fin 0)"
| "truthy (JStr s) = (s \<noteq> [])"
| "truthy (JArr xs) = True"
| "truthy (JObj kvs) = True"

fun typeof :: "json \<Rightarrow> string" where
  "typeof JUndefined = ''undefined''"
| "typeof JNull = ''object''"
| "typeof (JBool b) = ''boolean''"
| "typeof (JNum n) = ''number''"
| "typeof (JStr s) = ''string''"
| "typeof (JArr xs) = ''object''"
| "typeof (JObj kvs) = ''object''"

fun isArray :: "json \<Rightarrow> bool" where
  "isArray (JArr xs) = True"
| "isArray v = False"

fun isObject :: "json \<Rightarrow> bool" where
  "isObject (JObj kvs) = True"
| "isObject v = False"

fun nullish :: "json \<Rightarrow> bool" where
  "nullish JUndefined = True"
| "nullish JNull = True"
| "nullish v = False"

text \<open>\<open>a || b\<close>\<close>

definition or_js :: "json \<Rightarrow> json \<Rightarrow> json" where
  "or_js a b = (if truthy a then a else b)"

text \<open>
  Thrown values are error objects: the kind of error, its \<open>message\<close> and the
  \<open>status\<close> property that the HTTP helpers attach (undefined when there is none).
\<close>

datatype exn_kind = ErrorK | TypeErrorK

datatype exn = Exn (kind: exn_kind) (message: string) (status: json)

abbreviation Error :: "string \<Rightarrow> exn" where
  "Error m \<equiv> Exn ErrorK m JUndefined"

abbreviation TypeError :: "string \<Rightarrow> exn" where
  "TypeError m \<equiv> Exn TypeErrorK m JUndefined"

text \<open>
  Reading a property \<open>v.k\<close>. The program only reads property names that no array, string,
  number or boolean has of its own or inherits (\<open>posts\<close>, \<open>likes\<close>, \<open>creator\<close>, ...), so
  on those values the result is undefined. On null and undefined the read raises a
  TypeError (the message is the one V8 prints).
\<close>

fun js_prop :: "json \<Rightarrow> string \<Rightarrow> json" where
  "js_prop (JObj kvs) k = (case map_of kvs k of None \<Rightarrow> JUndefined | Some v \<Rightarrow> v)"
| "js_prop v k = JUndefined"

definition getp :: "json \<Rightarrow> string \<Rightarrow> exn + json" where
  "getp v k =
     (if v = JUndefined then
        Inl (TypeError (''Cannot read properties of undefined (reading '' @ [CHR 0x27] @ k @ [CHR 0x27] @ '')''))
      else if v = JNull then
        Inl (TypeError (''Cannot read properties of null (reading '' @ [CHR 0x27] @ k @ [CHR 0x27] @ '')''))
      else Inr (js_prop v k))"

text \<open>
  \<open>a === b\<close> and the SameValueZero comparison of \<open>includes\<close> and \<open>Set\<close>, for two values
  that do not come from the same place of a decoded document: primitives are compared by
  value, and two objects or arrays decoded at different places are never the same object.
\<close>

fun isPrimitive :: "json \<Rightarrow> bool" where
  "isPrimitive (JArr xs) = False"
| "isPrimitive (JObj kvs) = False"
| "isPrimitive v = True"

definition strictEq :: "json \<Rightarrow> json \<Rightarrow> bool" where
  "strictEq a b = (isPrimitive a \<and> a = b)"

text \<open>
  ToString, as a template literal, \<open>encodeURIComponent\<close> and a computed property key
  apply it, may raise. A primitive always converts. An array joins the conversions of its
  elements (null and undefined give the empty text). An object decoded from JSON converts
  to \<open>[object Object]\<close> through the inherited \<open>toString\<close>, unless it has a property
  \<open>toString\<close> of its own: that value is not callable, the inherited \<open>valueOf\<close> returns
  the object itself, and the conversion raises a TypeError.
\<close>

fun convertible :: "json \<Rightarrow> bool" where
  "convertible (JArr xs) = (\<forall>x\<in>set xs. convertible x)"
| "convertible (JObj kvs) = (map_of kvs ''toString'' = None)"
| "convertible v = True"

abbreviation notConvertible :: exn where
  "notConvertible \<equiv> TypeError ''Cannot convert object to primitive value''"

section \<open>Requests and the collaborators\<close>

text \<open>
  A URL is built by a template literal. It is kept as the list of its pieces: literal
  text, an interpolated value (\<open>${v}\<close>) and an interpolated, percent-encoded value
  (\<open>${encodeURIComponent(v)}\<close>). The functions below build a URL only from values that
  convert, and raise otherwise. The one value they interpolate unchecked is
  \<open>window.__CONFIG__.apiBase\<close>, the constant of the page's own configuration, which is a
  string when it is set.
\<close>

datatype piece = Lit string | Val json | Enc json

datatype http_method = GET | POST | DELETE

datatype request = Request (req_method: http_method) (req_url: "piece list")

text \<open>Fields of a normalized post (\<open>getTopicPosts\<close>) and of a like result (\<open>togglePostLike\<close>).\<close>

record post =
  id_post :: json
  title :: json
  content :: json
  author :: json
  author_id :: json
  userId :: json
  authorId :: json
  created_at :: json
  created :: json
  likes :: json
  comments :: json
  author_avatar :: json

record like_result =
  liked :: bool
  likes_count :: json
  post_id :: json

record user =
  uid :: string
  photoURL :: json
  photo_user :: json

record participant =
  id_participant :: json
  name :: json
  avatar :: json
  photo :: json
  status_participant :: string
  isHost :: bool
  inCall :: bool

text \<open>
  The collaborators, none of which is part of the modules below. Each is a function of its
  arguments; a promise that rejects is \<open>Inl\<close> of the error object.
  \<^item> \<open>API_BASE\<close>: the constant of \<open>appConfig.js\<close>; \<open>window_CONFIG\<close>: the value of
    \<open>window.__CONFIG__\<close> (undefined when the page did not set it);
  \<^item> \<open>locationRoom\<close>: \<open>new URLSearchParams(window.location.search).get("room")\<close>, \<open>None\<close>
    being \<open>null\<close>;
  \<^item> \<open>fetchJsonWithAuth\<close>, \<open>postJsonWithAuth\<close>: the HTTP helpers of \<open>apiClient.js\<close>, which
    resolve to the decoded body;
  \<^item> \<open>now\<close>: the readings of the clock during a call, \<open>now k\<close> being what the
    evaluation number \<open>k\<close> of \<open>new Date().toISOString()\<close> returns;
  \<^item> \<open>showToast\<close>: whether \<open>window.showToast\<close> is a function (it is undefined otherwise);
  \<^item> \<open>confirm_answer\<close>: what the user answers to \<open>confirm(message)\<close>;
  \<^item> \<open>getUserDisplayInfo\<close>, \<open>getUserDisplayInfos\<close>: the lookups of \<open>userAuth\<close>; the
    second resolves to an object keyed by user id, given here by its reading \<open>infosMap[uid]\<close>;
  \<^item> \<open>usersDoc\<close>: \<open>db.collection("users").doc(uid).get()\<close>, resolving to the data of the
    document when it exists;
  \<^item> \<open>participantsListEl\<close>: whether the page has the element \<open>participantsList\<close>.
\<close>

record env =
  API_BASE :: string
  window_CONFIG :: json
  locationRoom :: "string option"
  fetchJsonWithAuth :: "request \<Rightarrow> exn + json"
  postJsonWithAuth :: "request \<Rightarrow> exn + json"
  now :: "nat \<Rightarrow> string"
  showToast :: bool
  confirm_answer :: "string \<Rightarrow> bool"
  getUserDisplayInfo :: "json \<Rightarrow> exn + json"
  getUserDisplayInfos :: "json list \<Rightarrow> exn + (json \<Rightarrow> json)"
  usersDoc :: "json \<Rightarrow> exn + json option"
  participantsListEl :: bool

text \<open>
  What the room manager does to the outside: the requests it issues, the toasts it shows,
  the timers it sets (delay in milliseconds and the page the callback navigates to), the
  confirmation prompts it opens and the participant lists it renders.
\<close>

record world =
  requests :: "request list"
  toasts :: "(string \<times> string) list"
  timeouts :: "(nat \<times> string) list"
  confirms :: "string list"
  rendered :: "participant list list"

text \<open>
  \<open>currentRoomData\<close> refers to the object that the server returned. \<open>autoJoinRoom\<close> assigns
  its \<open>participants\<close> property; the assigned value is kept beside the fetched object, and
  a read of \<open>participants\<close> sees the assigned value first.
\<close>

record room_ref =
  fetched :: json
  participants_set :: "json option"

record room_manager =
  currentUser :: "user option"
  currentRoomData :: room_ref
  isOwner :: bool
  participants :: "participant list"
  isLoading :: bool

section \<open>topicsClient.js\<close>

text \<open>
  The requests of the two functions: GET \<open>${API_BASE}/api/topics/${encodeURIComponent(topicId)}/posts\<close>
  and POST \<open>${API_BASE}/api/posts/${encodeURIComponent(postId)}/like\<close>.
\<close>

definition postsRequest :: "env \<Rightarrow> json \<Rightarrow> request" where
  "postsRequest env topicId =
     Request GET [Lit (API_BASE env), Lit ''/api/topics/'', Enc topicId, Lit ''/posts'']"

definition likeRequest :: "env \<Rightarrow> json \<Rightarrow> request" where
  "likeRequest env postId =
     Request POST [Lit (API_BASE env), Lit ''/api/posts/'', Enc postId, Lit ''/like'']"

text \<open>
  The callback of \<open>posts.map\<close> in \<open>getTopicPosts\<close>; \<open>None\<close> is its \<open>null\<close>. The
  callback is given the number \<open>k\<close> of clock readings taken so far and returns the number
  after it: a post with neither \<open>created_at\<close> nor \<open>created\<close> reads the clock twice, once
  for each of the two fields of the record.
\<close>

definition normalizePost :: "(nat \<Rightarrow> string) \<Rightarrow> nat \<Rightarrow> json \<Rightarrow> post option \<times> nat" where
  "normalizePost clock k p =
     (if \<not> truthy p \<or> typeof p \<noteq> ''object'' then (None, k)
      else
        (Some \<lparr>
           id_post = js_prop p ''id'',
           title = or_js (js_prop p ''title'') (JStr ''''),
           content = or_js (js_prop p ''content'') (JStr ''''),
           author = or_js (js_prop p ''author'') (JStr ''Anonymous''),
           author_id = or_js (js_prop p ''author_id'') (or_js (js_prop p ''authorId'') JNull),
           userId = or_js (js_prop p ''userId'') (or_js (js_prop p ''author_id'') JNull),
           authorId = or_js (js_prop p ''author_id'') (or_js (js_prop p ''authorId'') JNull),
           created_at =
             or_js (js_prop p ''created_at'') (or_js (js_prop p ''created'') (JStr (clock k))),
           created =
             or_js (js_prop p ''created_at'') (or_js (js_prop p ''created'') (JStr (clock (k + 1)))),
           likes = (if typeof (js_prop p ''likes'') = ''number'' then js_prop p ''likes'' else JNum (Fin 0)),
           comments = or_js (js_prop p ''comments'') (JNum (Fin 0)),
           author_avatar = or_js (js_prop p ''author_avatar'') JNull
         \<rparr>,
         if truthy (js_prop p ''created_at'') \<or> truthy (js_prop p ''created'') then k else k + 2))"

text \<open>
  The two statements of \<open>getTopicPosts\<close> that find the array of posts in the response:
  \<open>Array.isArray(resp) ? resp : resp.posts || resp\<close>, then the wrapping of a value that
  is not an array.
\<close>

definition extractPosts :: "json \<Rightarrow> exn + json list" where
  "extractPosts resp =
     (case (if isArray resp then Inr resp
            else (case getp resp ''posts'' of
                    Inl e \<Rightarrow> Inl e
                  | Inr v \<Rightarrow> Inr (or_js v resp))) of
        Inl e \<Rightarrow> Inl e
      | Inr posts \<Rightarrow>
          Inr (case posts of
                 JArr xs \<Rightarrow> xs
               | _ \<Rightarrow> if truthy resp \<and> typeof resp = ''object'' then [resp] else []))"

text \<open>\<open>posts.map(...)\<close>: the callback on each element in turn, the clock going on.\<close>

fun mapPosts :: "(nat \<Rightarrow> string) \<Rightarrow> nat \<Rightarrow> json list \<Rightarrow> post option list" where
  "mapPosts clock k [] = []"
| "mapPosts clock k (p # ps) =
     fst (normalizePost clock k p) # mapPosts clock (snd (normalizePost clock k p)) ps"

text \<open>\<open>.map(...)\<close> followed by \<open>.filter((p) => p !== null)\<close>.\<close>

definition normalizePosts :: "(nat \<Rightarrow> string) \<Rightarrow> json list \<Rightarrow> post list" where
  "normalizePosts clock posts = List.map_filter (\<lambda>r. r) (mapPosts clock 0 posts)"

text \<open>
  The \<open>try\<close> block of \<open>getTopicPosts\<close>: the URL is built first, and no request is
  issued when \<open>encodeURIComponent(topicId)\<close> raises.
\<close>

definition getTopicPosts_try ::
  "env \<Rightarrow> json \<Rightarrow> request list \<Rightarrow> (exn + post list) \<times> request list" where
  "getTopicPosts_try env topicId reqs =
     (if \<not> convertible topicId then (Inl notConvertible, reqs)
      else
        let r = postsRequest env topicId in
        (case fetchJsonWithAuth env r of
           Inl err \<Rightarrow> (Inl err, reqs @ [r])
         | Inr resp \<Rightarrow>
             (case extractPosts resp of
                Inl err \<Rightarrow> (Inl err, reqs @ [r])
              | Inr posts \<Rightarrow> (Inr (normalizePosts (now env) posts), reqs @ [r]))))"

text \<open>
  \<open>getTopicPosts(topicId)\<close>. The result is what the promise settles to, with the
  requests issued so far.
\<close>

definition getTopicPosts ::
  "env \<Rightarrow> json \<Rightarrow> request list \<Rightarrow> (exn + post list) \<times> request list" where
  "getTopicPosts env topicId reqs =
     (if \<not> truthy topicId then (Inl (Error ''topicId required''), reqs)
      else
        (case getTopicPosts_try env topicId reqs of
           (Inl err, reqs1) \<Rightarrow>
             (Inl (Error (''GET /api/topics/:id/posts failed: '' @ message err)), reqs1)
         | (Inr normalized, reqs1) \<Rightarrow> (Inr normalized, reqs1)))"

text \<open>
  The \<open>try\<close> block of \<open>togglePostLike\<close>; again no request is issued when
  \<open>encodeURIComponent(postId)\<close> raises.
\<close>

definition togglePostLike_try ::
  "env \<Rightarrow> json \<Rightarrow> request list \<Rightarrow> (exn + like_result) \<times> request list" where
  "togglePostLike_try env postId reqs =
     (if \<not> convertible postId then (Inl notConvertible, reqs)
      else
        let r = likeRequest env postId in
        (case postJsonWithAuth env r of
           Inl err \<Rightarrow> (Inl err, reqs @ [r])
         | Inr resp \<Rightarrow>
             if \<not> truthy resp \<or> typeof resp \<noteq> ''object''
             then (Inl (Error ''Invalid response from server''), reqs @ [r])
             else (Inr \<lparr>
                     liked = (js_prop resp ''liked'' = JBool True),
                     likes_count = (if typeof (js_prop resp ''likes'') = ''number''
                                    then js_prop resp ''likes'' else JNum (Fin 0)),
                     post_id = or_js (js_prop resp ''post_id'') postId
                   \<rparr>, reqs @ [r])))"

text \<open>\<open>togglePostLike(postId)\<close>.\<close>

definition togglePostLike ::
  "env \<Rightarrow> json \<Rightarrow> request list \<Rightarrow> (exn + like_result) \<times> request list" where
  "togglePostLike env postId reqs =
     (if \<not> truthy postId then (Inl (Error ''postId required''), reqs)
      else
        (case togglePostLike_try env postId reqs of
           (Inl err, reqs1) \<Rightarrow>
             (Inl (Exn ErrorK (''Toggle like failed: '' @ message err)
                     (if truthy (status err) then status err else JUndefined)), reqs1)
         | (Inr res, reqs1) \<Rightarrow> (Inr res, reqs1)))"

section \<open>room-manager.js\<close>

text \<open>The constructor: no room yet, the loading flag set.\<close>

definition RoomManager :: "user option \<Rightarrow> room_manager" where
  "RoomManager u =
     \<lparr>currentUser = u,
      currentRoomData = \<lparr>fetched = JNull, participants_set = None\<rparr>,
      isOwner = False, participants = [], isLoading = True\<rparr>"

text \<open>\<open>this.userAuth.currentUser?.uid\<close>: \<open>None\<close> is undefined.\<close>

definition currentUid :: "room_manager \<Rightarrow> string option" where
  "currentUid s = map_option uid (currentUser s)"

definition uidValue :: "string option \<Rightarrow> json" where
  "uidValue u = (case u of None \<Rightarrow> JUndefined | Some x \<Rightarrow> JStr x)"

text \<open>ToString of the same value, as \<open>String.prototype.includes\<close> applies it.\<close>

definition uidString :: "string option \<Rightarrow> string" where
  "uidString u = (case u of None \<Rightarrow> ''undefined'' | Some x \<Rightarrow> x)"

text \<open>Reading a property of the room object, where the object is known not to be null.\<close>

definition room_prop :: "room_ref \<Rightarrow> string \<Rightarrow> json" where
  "room_prop r k =
     (if k = ''participants'' then
        (case participants_set r of Some v \<Rightarrow> v | None \<Rightarrow> js_prop (fetched r) k)
      else js_prop (fetched r) k)"

text \<open>\<open>this.currentRoomData.k\<close>, and \<open>this.currentRoomData?.k\<close>.\<close>

definition room_getp :: "room_ref \<Rightarrow> string \<Rightarrow> exn + json" where
  "room_getp r k =
     (case getp (fetched r) k of Inl e \<Rightarrow> Inl e | Inr v \<Rightarrow> Inr (room_prop r k))"

definition room_getp_opt :: "room_ref \<Rightarrow> string \<Rightarrow> json" where
  "room_getp_opt r k = (if nullish (fetched r) then JUndefined else room_prop r k)"

text \<open>
  \<open>this.currentRoomData.participants = v\<close>. The module is strict code: assigning a property
  of a primitive raises a TypeError, as does assigning one of null.
\<close>

definition room_set_participants :: "room_ref \<Rightarrow> json \<Rightarrow> exn + room_ref" where
  "room_set_participants r v =
     (if isObject (fetched r) \<or> isArray (fetched r) then Inr (r\<lparr>participants_set := Some v\<rparr>)
      else if nullish (fetched r) then Inl (TypeError ''Cannot set properties of null'')
      else Inl (TypeError ''Cannot create property on a primitive value''))"

text \<open>\<open>hay.includes(needle)\<close> on strings: some position of \<open>hay\<close> starts with \<open>needle\<close>.\<close>

fun isSubstring :: "string \<Rightarrow> string \<Rightarrow> bool" where
  "isSubstring needle [] = (needle = [])"
| "isSubstring needle (c # cs) =
     (take (length needle) (c # cs) = needle \<or> isSubstring needle cs)"

text \<open>
  \<open>participants.includes(currentUid)\<close>. An array compares its elements with the uid, a
  string searches for it as text, and no other value has the method.
\<close>

definition js_includes :: "json \<Rightarrow> string option \<Rightarrow> exn + bool" where
  "js_includes c u =
     (case c of
        JArr xs \<Rightarrow> Inr (list_ex (\<lambda>x. strictEq (uidValue u) x) xs)
      | JStr t \<Rightarrow> Inr (isSubstring (uidString u) t)
      | _ \<Rightarrow> Inl (TypeError ''participants.includes is not a function''))"

text \<open>\<open>[...participants, currentUid]\<close>: an array spreads its elements, a string its characters.\<close>

definition spreadWith :: "json \<Rightarrow> json \<Rightarrow> exn + json" where
  "spreadWith c v =
     (case c of
        JArr xs \<Rightarrow> Inr (JArr (xs @ [v]))
      | JStr t \<Rightarrow> Inr (JArr (map (\<lambda>ch. JStr [ch]) t @ [v]))
      | _ \<Rightarrow> Inl (TypeError ''participants is not iterable''))"

text \<open>
  The requests of the room manager: GET \<open>${apiBase}/${roomId}\<close>, POST
  \<open>${apiBase}/${roomId}/join\<close> and DELETE
  \<open>${apiBase}/${roomId}/participants/${encodeURIComponent(userId)}\<close>, where \<open>apiBase\<close> is
  \<open>window.__CONFIG__.apiBase\<close>.
\<close>

definition roomRequest :: "json \<Rightarrow> json \<Rightarrow> request" where
  "roomRequest base roomId = Request GET [Val base, Lit ''/'', Val roomId]"

definition joinRequest :: "json \<Rightarrow> json \<Rightarrow> request" where
  "joinRequest base roomId = Request POST [Val base, Lit ''/'', Val roomId, Lit ''/join'']"

definition kickRequest :: "json \<Rightarrow> json \<Rightarrow> json \<Rightarrow> request" where
  "kickRequest base roomId user_id =
     Request DELETE [Val base, Lit ''/'', Val roomId, Lit ''/participants/'', Enc user_id]"

definition toast :: "env \<Rightarrow> string \<times> string \<Rightarrow> world \<Rightarrow> world" where
  "toast env t w = (if showToast env then w\<lparr>toasts := toasts w @ [t]\<rparr> else w)"

text \<open>
  \<open>autoJoinRoom()\<close>. Everything is inside the \<open>try\<close>, and the handler only logs: each
  error leaves with the state reached so far. First the end of the \<open>try\<close> block, the
  assignment \<open>this.currentRoomData.participants = [...participants, currentUid]\<close>.
\<close>

definition addCurrentUser :: "room_manager \<Rightarrow> json \<Rightarrow> room_manager" where
  "addCurrentUser s members =
     (case spreadWith members (uidValue (currentUid s)) of
        Inl err \<Rightarrow> s
      | Inr ps \<Rightarrow>
          (case room_set_participants (currentRoomData s) ps of
             Inl err \<Rightarrow> s
           | Inr r' \<Rightarrow> s\<lparr>currentRoomData := r'\<rparr>))"

text \<open>
  The part of the \<open>try\<close> block that joins, once the user is known not to be listed. The
  room id is interpolated twice, in the line that is logged and in the URL; when its
  conversion raises, nothing is sent.
\<close>

definition joinRoom :: "env \<Rightarrow> room_manager \<Rightarrow> world \<Rightarrow> json \<Rightarrow> room_manager \<times> world" where
  "joinRoom env s w members =
     (case room_getp (currentRoomData s) ''_id'' of
        Inl err \<Rightarrow> (s, w)
      | Inr rid \<Rightarrow>
          let roomId = or_js rid (room_prop (currentRoomData s) ''id'') in
          if \<not> convertible roomId then (s, w)
          else
          (case getp (window_CONFIG env) ''apiBase'' of
             Inl err \<Rightarrow> (s, w)
           | Inr base \<Rightarrow>
               let rq = joinRequest base roomId;
                   w1 = w\<lparr>requests := requests w @ [rq]\<rparr>
               in (case postJsonWithAuth env rq of
                     Inl err \<Rightarrow> (s, w1)
                   | Inr joinResponse \<Rightarrow>
                       (case getp joinResponse ''participantCount'' of
                          Inl err \<Rightarrow> (s, w1)
                        | Inr n \<Rightarrow> (addCurrentUser s members, w1)))))"

definition autoJoinRoom :: "env \<Rightarrow> room_manager \<Rightarrow> world \<Rightarrow> room_manager \<times> world" where
  "autoJoinRoom env s w =
     (let members = or_js (room_getp_opt (currentRoomData s) ''participants'') (JArr [])
      in case js_includes members (currentUid s) of
           Inl err \<Rightarrow> (s, w)
         | Inr listed \<Rightarrow> if listed then (s, w) else joinRoom env s w members)"

text \<open>
  The values of a participant that the template of \<open>updateParticipantsList\<close>
  interpolates: the photo or else the avatar, the id and the name.
\<close>

definition renderable :: "participant \<Rightarrow> bool" where
  "renderable p =
     ((if truthy (photo p) then convertible (photo p) else convertible (avatar p))
      \<and> convertible (id_participant p) \<and> convertible (name p))"

text \<open>
  \<open>updateParticipantsList()\<close>: nothing without the element; otherwise the list is
  rendered, which reads \<open>this.userAuth.currentUser.uid\<close> once for each participant and
  converts the values above to text.
\<close>

definition updateParticipantsList :: "env \<Rightarrow> room_manager \<Rightarrow> world \<Rightarrow> exn + world" where
  "updateParticipantsList env s w =
     (if \<not> participantsListEl env then Inr w
      else if participants s \<noteq> [] \<and> currentUser s = None then
        Inl (TypeError (''Cannot read properties of null (reading '' @ [CHR 0x27] @ ''uid'' @ [CHR 0x27] @ '')''))
      else if \<not> list_all renderable (participants s) then Inl notConvertible
      else Inr (w\<lparr>rendered := rendered w @ [participants s]\<rparr>))"

text \<open>\<open>Array.from(new Set(xs))\<close>: the first occurrence of each value, in order.\<close>

fun dedup :: "json list \<Rightarrow> json list \<Rightarrow> json list" where
  "dedup seen [] = []"
| "dedup seen (x # xs) =
     (if list_ex (\<lambda>y. strictEq y x) seen then dedup seen xs else x # dedup (seen @ [x]) xs)"

text \<open>\<open>uid.substring(0, 8)\<close>: only a string has the method.\<close>

definition substring8 :: "json \<Rightarrow> exn + json" where
  "substring8 v =
     (case v of
        JStr t \<Rightarrow> Inr (JStr (take 8 t))
      | _ \<Rightarrow> Inl (TypeError ''uid.substring is not a function''))"

text \<open>
  The callback of \<open>uids.map\<close> in \<open>loadParticipantsInfo\<close>, in the three steps of its
  \<open>try\<close> block. First the display info: the entry of the batch lookup, or else an object
  made from the single lookup. The read \<open>infosMap[uid]\<close> converts the uid to a property
  key, and raises when that conversion does.
\<close>

definition participantInfo :: "env \<Rightarrow> (json \<Rightarrow> json) \<Rightarrow> json \<Rightarrow> exn + json" where
  "participantInfo env infosMap u =
     (if \<not> convertible u then Inl notConvertible
      else if truthy (infosMap u) then Inr (infosMap u)
      else (case getUserDisplayInfo env u of
              Inl err \<Rightarrow> Inl err
            | Inr d \<Rightarrow>
                (case getp d ''displayName'' of
                   Inl err \<Rightarrow> Inl err
                 | Inr dn \<Rightarrow>
                     Inr (JObj [(''displayName'', dn), (''avatar'', JStr ''U''), (''photo'', JNull)]))))"

text \<open>
  Then the photo: the current user's own, or the one of the info, or the one of the user's
  document; a failed read of the document is ignored.
\<close>

definition participantPhoto :: "env \<Rightarrow> room_manager \<Rightarrow> json \<Rightarrow> json \<Rightarrow> exn + json" where
  "participantPhoto env s info u =
     (if strictEq u (uidValue (currentUid s)) then
        (case currentUser s of
           None \<Rightarrow> Inl (TypeError ''Cannot read properties of null'')
         | Some cu \<Rightarrow>
             Inr (or_js (photoURL cu) (or_js (photo_user cu) (or_js (js_prop info ''photo'') JNull))))
      else
        let ph = or_js (js_prop info ''photo'') JNull in
        if truthy ph then Inr ph
        else (case usersDoc env u of
                Inl err \<Rightarrow> Inr ph
              | Inr None \<Rightarrow> Inr ph
              | Inr (Some d) \<Rightarrow>
                  (case getp d ''photo'' of
                     Inl err \<Rightarrow> Inr ph
                   | Inr v \<Rightarrow> Inr (if truthy v then v else ph))))"

text \<open>Then the record, whose name is \<open>info.displayName || uid.substring(0, 8)\<close>.\<close>

definition participantRecord :: "room_manager \<Rightarrow> json \<Rightarrow> json \<Rightarrow> json \<Rightarrow> exn + participant" where
  "participantRecord s info ph u =
     (case (if truthy (js_prop info ''displayName'') then Inr (js_prop info ''displayName'')
            else substring8 u) of
        Inl err \<Rightarrow> Inl err
      | Inr nm \<Rightarrow>
          Inr \<lparr>id_participant = u, name = nm,
               avatar = or_js (js_prop info ''avatar'') (JStr ''U''),
               photo = ph, status_participant = ''online'',
               isHost = strictEq (room_prop (currentRoomData s) ''creator'') u,
               inCall = False\<rparr>)"

text \<open>The \<open>catch\<close> of the callback builds the minimal record, and fails if it cannot.\<close>

definition minimalRecord :: "room_manager \<Rightarrow> json \<Rightarrow> exn + participant" where
  "minimalRecord s u =
     (case substring8 u of
        Inl err \<Rightarrow> Inl err
      | Inr nm \<Rightarrow>
          Inr \<lparr>id_participant = u, name = nm, avatar = JStr ''U'', photo = JNull,
               status_participant = ''online'',
               isHost = strictEq (room_prop (currentRoomData s) ''creator'') u,
               inCall = False\<rparr>)"

definition buildParticipant :: "env \<Rightarrow> room_manager \<Rightarrow> (json \<Rightarrow> json) \<Rightarrow> json \<Rightarrow> exn + participant" where
  "buildParticipant env s infosMap u =
     (case (case participantInfo env infosMap u of
              Inl err \<Rightarrow> Inl err
            | Inr info \<Rightarrow>
                (case participantPhoto env s info u of
                   Inl err \<Rightarrow> Inl err
                 | Inr ph \<Rightarrow> participantRecord s info ph u)) of
        Inr p \<Rightarrow> Inr p
      | Inl err \<Rightarrow> minimalRecord s u)"

text \<open>\<open>Promise.all\<close>: the results in order, or a rejection.\<close>

fun promiseAll :: "(exn + 'a) list \<Rightarrow> exn + 'a list" where
  "promiseAll [] = Inr []"
| "promiseAll (x # xs) =
     (case x of
        Inl err \<Rightarrow> Inl err
      | Inr v \<Rightarrow> (case promiseAll xs of Inl err \<Rightarrow> Inl err | Inr vs \<Rightarrow> Inr (v # vs)))"

text \<open>The tail of both branches of \<open>loadParticipantsInfo\<close>: store the list and render it.\<close>

definition setParticipants :: "env \<Rightarrow> room_manager \<Rightarrow> world \<Rightarrow> participant list \<Rightarrow> room_manager \<times> world" where
  "setParticipants env s w ps =
     (let s1 = s\<lparr>participants := ps\<rparr> in
      case updateParticipantsList env s1 w of Inl err \<Rightarrow> (s1, w) | Inr w1 \<Rightarrow> (s1, w1))"

text \<open>
  The branch of \<open>loadParticipantsInfo\<close> for a room without participants: the current user
  alone. The handler of the \<open>try\<close> only logs, here and in the other branch.
\<close>

definition loadSelfOnly :: "env \<Rightarrow> room_manager \<Rightarrow> world \<Rightarrow> room_manager \<times> world" where
  "loadSelfOnly env s w =
     (case getUserDisplayInfo env (uidValue (currentUid s)) of
        Inl err \<Rightarrow> (s, w)
      | Inr selfInfo \<Rightarrow>
          (case getp selfInfo ''displayName'' of
             Inl err \<Rightarrow> (s, w)
           | Inr dn \<Rightarrow>
               (case currentUser s of
                  None \<Rightarrow> (s, w)
                | Some cu \<Rightarrow>
                    setParticipants env s w
                      [\<lparr>id_participant = uidValue (currentUid s), name = dn,
                        avatar = js_prop selfInfo ''avatar'',
                        photo = or_js (photoURL cu) (or_js (photo_user cu) JNull),
                        status_participant = ''online'',
                        isHost = isOwner s, inCall = False\<rparr>])))"

text \<open>The other branch: a record for each distinct truthy element of the list.\<close>

definition loadAll :: "env \<Rightarrow> room_manager \<Rightarrow> world \<Rightarrow> json list \<Rightarrow> room_manager \<times> world" where
  "loadAll env s w members =
     (let uids = dedup [] (filter truthy members) in
      case getUserDisplayInfos env uids of
        Inl err \<Rightarrow> (s, w)
      | Inr infosMap \<Rightarrow>
          (case promiseAll (map (buildParticipant env s infosMap) uids) of
             Inl err \<Rightarrow> (s, w)
           | Inr ps \<Rightarrow> setParticipants env s w ps))"

text \<open>The elements of an array.\<close>

fun elements :: "json \<Rightarrow> json list" where
  "elements (JArr xs) = xs"
| "elements v = []"

text \<open>\<open>loadParticipantsInfo()\<close>.\<close>

definition loadParticipantsInfo :: "env \<Rightarrow> room_manager \<Rightarrow> world \<Rightarrow> room_manager \<times> world" where
  "loadParticipantsInfo env s w =
     (let s0 = s\<lparr>participants := []\<rparr>;
          members = room_getp_opt (currentRoomData s0) ''participants''
      in if \<not> truthy members \<or> \<not> isArray members \<or> length (elements members) = 0
         then loadSelfOnly env s0 w
         else loadAll env s0 w (elements members))"

text \<open>The \<open>try\<close> block of \<open>loadRoomData\<close>, with the state and the effects at the point it leaves.\<close>

definition loadRoomData_try ::
  "env \<Rightarrow> room_manager \<Rightarrow> world \<Rightarrow> (exn + room_ref) \<times> room_manager \<times> world" where
  "loadRoomData_try env s w =
     (case locationRoom env of
        None \<Rightarrow> (Inl (Error ''Room ID not found in URL''), s, w)
      | Some roomId \<Rightarrow>
          if roomId = [] then (Inl (Error ''Room ID not found in URL''), s, w)
          else
            (case getp (window_CONFIG env) ''apiBase'' of
               Inl err \<Rightarrow> (Inl err, s, w)
             | Inr base \<Rightarrow>
                 let rq = roomRequest base (JStr roomId);
                     w1 = w\<lparr>requests := requests w @ [rq]\<rparr>
                 in (case fetchJsonWithAuth env rq of
                       Inl err \<Rightarrow> (Inl err, s, w1)
                     | Inr data \<Rightarrow>
                         if \<not> truthy data then (Inl (Error ''No room data returned''), s, w1)
                         else
                           let s1 = s\<lparr>currentRoomData := \<lparr>fetched = data, participants_set = None\<rparr>\<rparr> in
                           (case currentUser s1 of
                              None \<Rightarrow>
                                (Inl (TypeError (''Cannot read properties of null (reading ''
                                        @ [CHR 0x27] @ ''uid'' @ [CHR 0x27] @ '')'')), s1, w1)
                            | Some cu \<Rightarrow>
                                let s2 = s1\<lparr>isOwner :=
                                           strictEq (JStr (uid cu)) (room_prop (currentRoomData s1) ''creator'')\<rparr>;
                                    (s3, w2) = autoJoinRoom env s2 w1;
                                    (s4, w3) = loadParticipantsInfo env s3 w2;
                                    s5 = s4\<lparr>isLoading := False\<rparr>
                                in (Inr (currentRoomData s5), s5, w3)))))"

text \<open>\<open>loadRoomData()\<close>: the value the promise settles to, the manager and the effects.\<close>

definition loadRoomData ::
  "env \<Rightarrow> room_manager \<Rightarrow> world \<Rightarrow> (exn + room_ref) \<times> room_manager \<times> world" where
  "loadRoomData env s w =
     (case loadRoomData_try env (s\<lparr>isLoading := True\<rparr>) w of
        (Inr room, s1, w1) \<Rightarrow> (Inr room, s1, w1)
      | (Inl err, s1, w1) \<Rightarrow>
          (Inl err,
           s1\<lparr>isLoading := False\<rparr>,
           (let w2 = (if showToast env
                      then w1\<lparr>toasts := toasts w1 @ [(''Failed to load room: '' @ message err, ''error'')]\<rparr>
                      else w1)
            in w2\<lparr>timeouts := timeouts w2 @ [(2000, ''study-rooms.html'')]\<rparr>)))"

text \<open>The \<open>try\<close> block of \<open>kickParticipant\<close>.\<close>

definition kickParticipant_try ::
  "env \<Rightarrow> room_manager \<Rightarrow> json \<Rightarrow> world \<Rightarrow> (exn + unit) \<times> room_manager \<times> world" where
  "kickParticipant_try env s user_id w =
     (case room_getp (currentRoomData s) ''_id'' of
        Inl err \<Rightarrow> (Inl err, s, w)
      | Inr rid \<Rightarrow>
          let roomId = or_js rid (room_prop (currentRoomData s) ''id'') in
          (case getp (window_CONFIG env) ''apiBase'' of
             Inl err \<Rightarrow> (Inl err, s, w)
           | Inr base \<Rightarrow>
               if \<not> convertible roomId \<or> \<not> convertible user_id then (Inl notConvertible, s, w)
               else
               let rq = kickRequest base roomId user_id;
                   w1 = w\<lparr>requests := requests w @ [rq]\<rparr>
               in (case fetchJsonWithAuth env rq of
                     Inl err \<Rightarrow> (Inl err, s, w1)
                   | Inr body \<Rightarrow>
                       let s1 = s\<lparr>participants :=
                                  filter (\<lambda>p. \<not> strictEq user_id (id_participant p)) (participants s)\<rparr>
                       in (case updateParticipantsList env s1 w1 of
                             Inl err \<Rightarrow> (Inl err, s1, w1)
                           | Inr w2 \<Rightarrow>
                               (Inr (), s1, toast env (''Participant removed successfully'', ''success'') w2)))))"

text \<open>
  \<open>kickParticipant(userId)\<close>. The promise is fulfilled on every path: the refusal, the
  cancelled prompt and the handler of the \<open>try\<close> all return.
\<close>

definition kickParticipant ::
  "env \<Rightarrow> room_manager \<Rightarrow> json \<Rightarrow> world \<Rightarrow> (exn + unit) \<times> room_manager \<times> world" where
  "kickParticipant env s user_id w =
     (if \<not> isOwner s then
        (Inr (), s, toast env (''Only the room owner can remove participants.'', ''error'') w)
      else
        let q = ''Are you sure you want to remove this participant from the room?'';
            w1 = w\<lparr>confirms := confirms w @ [q]\<rparr>
        in if \<not> confirm_answer env q then (Inr (), s, w1)
           else
             (case kickParticipant_try env s user_id w1 of
                (Inr u, s1, w2) \<Rightarrow> (Inr (), s1, w2)
              | (Inl err, s1, w2) \<Rightarrow>
                  (Inr (), s1,
                   toast env (''Could not remove participant: ''
                                @ (if message err \<noteq> [] then message err else ''unknown error''),
                              ''error'') w2)))"

section \<open>profile.js: validation of the edit form\<close>

text \<open>
  Regular expressions, as far as \<open>validateEmail\<close> needs them: classes of characters,
  sequence and repetition; \<open>Zero\<close>, \<open>One\<close> and \<open>Alt\<close> only arise while matching.
  \<open>regex_test\<close> is \<open>RegExp.prototype.test\<close> for a pattern anchored at both ends; it
  consumes the string a character at a time, taking the derivative of the expression.
\<close>

datatype rx = Zero | One | Cls "char \<Rightarrow> bool" | Alt rx rx | Seq rx rx | Star rx

definition Plus :: "rx \<Rightarrow> rx" where
  "Plus r = Seq r (Star r)"

fun nullable :: "rx \<Rightarrow> bool" where
  "nullable Zero = False"
| "nullable One = True"
| "nullable (Cls P) = False"
| "nullable (Alt r s) = (nullable r \<or> nullable s)"
| "nullable (Seq r s) = (nullable r \<and> nullable s)"
| "nullable (Star r) = True"

fun deriv :: "char \<Rightarrow> rx \<Rightarrow> rx" where
  "deriv c Zero = Zero"
| "deriv c One = Zero"
| "deriv c (Cls P) = (if P c then One else Zero)"
| "deriv c (Alt r s) = Alt (deriv c r) (deriv c s)"
| "deriv c (Seq r s) =
     (if nullable r then Alt (Seq (deriv c r) s) (deriv c s) else Seq (deriv c r) s)"
| "deriv c (Star r) = Seq (deriv c r) (Star r)"

fun regex_test :: "rx \<Rightarrow> string \<Rightarrow> bool" where
  "regex_test r [] = nullable r"
| "regex_test r (c # cs) = regex_test (deriv c r) cs"

text \<open>The meaning of an expression: the strings it matches as a whole.\<close>

inductive matches :: "rx \<Rightarrow> string \<Rightarrow> bool" where
  m_One: "matches One []"
| m_Cls: "P c \<Longrightarrow> matches (Cls P) [c]"
| m_AltL: "matches r w \<Longrightarrow> matches (Alt r s) w"
| m_AltR: "matches s w \<Longrightarrow> matches (Alt r s) w"
| m_Seq: "matches r u \<Longrightarrow> matches s v \<Longrightarrow> matches (Seq r s) (u @ v)"
| m_StarNil: "matches (Star r) []"
| m_StarStep: "matches r u \<Longrightarrow> matches (Star r) v \<Longrightarrow> matches (Star r) (u @ v)"

text \<open>
  White space, as \<open>\s\<close> and \<open>trim\<close> see it among the code units below 256: tab, line
  feed, vertical tab, form feed, carriage return, space and no-break space.
\<close>

definition isWhiteSpace :: "char \<Rightarrow> bool" where
  "isWhiteSpace c = (of_char c \<in> {9, 10, 11, 12, 13, 32, 160 :: nat})"

text \<open>The class \<open>[^\s@]\<close> and the pattern \<open>/^[^\s@]+@[^\s@]+\.[^\s@]+$/\<close>.\<close>

definition notSpaceAt :: "char \<Rightarrow> bool" where
  "notSpaceAt c = (\<not> isWhiteSpace c \<and> c \<noteq> CHR ''@'')"

definition emailRegex :: rx where
  "emailRegex =
     Seq (Plus (Cls notSpaceAt))
       (Seq (Cls (\<lambda>c. c = CHR ''@''))
          (Seq (Plus (Cls notSpaceAt))
             (Seq (Cls (\<lambda>c. c = CHR ''.'')) (Plus (Cls notSpaceAt)))))"

text \<open>
  \<open>toLowerCase\<close> on code units below 256: the letters A to Z and the accented capitals
  (192 to 222, the multiplication sign 215 apart) move up by 32.
\<close>

definition lowerChar :: "char \<Rightarrow> char" where
  "lowerChar c =
     (let n = (of_char c :: nat) in
      if (65 \<le> n \<and> n \<le> 90) \<or> (192 \<le> n \<and> n \<le> 222 \<and> n \<noteq> 215) then char_of (n + 32) else c)"

definition toLowerCase :: "string \<Rightarrow> string" where
  "toLowerCase t = map lowerChar t"

definition endsWith :: "string \<Rightarrow> string \<Rightarrow> bool" where
  "endsWith t suf = (length suf \<le> length t \<and> drop (length t - length suf) t = suf)"

definition trim :: "string \<Rightarrow> string" where
  "trim t = rev (dropWhile isWhiteSpace (rev (dropWhile isWhiteSpace t)))"

record validation =
  valid :: bool
  message_validation :: string

definition validateEmail :: "string \<Rightarrow> validation" where
  "validateEmail email =
     (if \<not> regex_test emailRegex email then
        \<lparr>valid = False, message_validation = ''Please enter a valid email address format!''\<rparr>
      else if \<not> endsWith (toLowerCase email) ''@paterostechnologicalcollege.edu.ph'' then
        \<lparr>valid = False,
         message_validation =
           ''Email must be from Pateros Technological College domain (@paterostechnologicalcollege.edu.ph)''\<rparr>
      else \<lparr>valid = True, message_validation = []\<rparr>)"

text \<open>An input of the form: its id, the \<open>required\<close> attribute and the text in it.\<close>

record field =
  id_field :: string
  required :: bool
  field_value :: string

text \<open>\<open>validateField(field)\<close>: the result, and the text of the error it appends, if any.\<close>

definition validateField :: "field \<Rightarrow> bool \<times> string option" where
  "validateField f =
     (if required f \<and> trim (field_value f) = [] then (False, Some ''This field is required'')
      else if id_field f = ''editEmail'' \<and> trim (field_value f) \<noteq> []
              \<and> \<not> valid (validateEmail (trim (field_value f)))
      then (False, Some (message_validation (validateEmail (trim (field_value f)))))
      else (True, None))"

text \<open>
  \<open>validateAllFields()\<close>, the document being given by \<open>getElementById\<close>; every field that
  exists is validated, also after one has failed.
\<close>

definition validateAllFields :: "(string \<Rightarrow> field option) \<Rightarrow> bool" where
  "validateAllFields getElementById =
     fold (\<lambda>i ok. case getElementById i of None \<Rightarrow> ok | Some f \<Rightarrow> fst (validateField f) \<and> ok)
       [''editName'', ''editEmail'', ''editStudentNumber'', ''editProgram''] True"

section \<open>Example environments\<close>

text \<open>
  A page with its configuration and the room id \<open>r1\<close> in its address, a server that
  answers every GET with the room below and refuses every POST, and a user directory that
  knows \<open>u1\<close> in its batch lookup.
\<close>

definition exampleRoom :: json where
  "exampleRoom =
     JObj [(''_id'', JStr ''r1''), (''creator'', JStr ''u1''),
           (''participants'', JArr [JStr ''u1'', JStr ''u2''])]"

definition exampleEnv :: env where
  "exampleEnv =
     \<lparr>API_BASE = ''https://api.example'',
      window_CONFIG = JObj [(''apiBase'', JStr ''https://api.example/rooms'')],
      locationRoom = Some ''r1'',
      fetchJsonWithAuth = (\<lambda>r. Inr exampleRoom),
      postJsonWithAuth = (\<lambda>r. Inl (Exn ErrorK ''Forbidden'' (JNum (Fin 403)))),
      now = (\<lambda>k. if even k then ''2025-01-01T00:00:00.000Z'' else ''2025-01-01T00:00:00.001Z''),
      showToast = True,
      confirm_answer = (\<lambda>q. True),
      getUserDisplayInfo = (\<lambda>u. Inr (JObj [(''displayName'', JStr ''Ben''), (''avatar'', JStr ''B'')])),
      getUserDisplayInfos =
        (\<lambda>us. Inr (\<lambda>u. if u = JStr ''u1''
                        then JObj [(''displayName'', JStr ''Ana''), (''avatar'', JStr ''A'')]
                        else JUndefined)),
      usersDoc = (\<lambda>u. Inr None),
      participantsListEl = True\<rparr>"

definition exampleUser :: "string \<Rightarrow> user" where
  "exampleUser u = \<lparr>uid = u, photoURL = JNull, photo_user = JNull\<rparr>"

definition emptyWorld :: world where
  "emptyWorld = \<lparr>requests = [], toasts = [], timeouts = [], confirms = [], rendered = []\<rparr>"

text \<open>The payload of the end-to-end example of \<open>getTopicPosts\<close>.\<close>

definition examplePosts :: json where
  "examplePosts =
     JObj [(''posts'', JArr [JObj [(''id'', JStr ''p1'')], JStr ''bad'',
                             JObj [(''id'', JStr ''p2''), (''likes'', JStr ''3'')]])]"

text \<open>An edit form whose email field holds an address of the college, with spaces around it.\<close>

definition exampleForm :: "string \<Rightarrow> field option" where
  "exampleForm i =
     (if i = ''editEmail''
      then Some \<lparr>id_field = ''editEmail'', required = True,
                 field_value = '' Juan.Cruz@PaterosTechnologicalCollege.edu.ph ''\<rparr>
      else None)"

section \<open>Auxiliary notions for the statements\<close>

text \<open>
  The manager as \<open>loadRoomData\<close> leaves it after a successful fetch, before the auto-join:
  loading, the room as fetched, and the ownership flag derived from it.
\<close>

definition fetchedState :: "room_manager \<Rightarrow> user \<Rightarrow> json \<Rightarrow> room_manager" where
  "fetchedState s cu data =
     s\<lparr>isLoading := True,
       currentRoomData := \<lparr>fetched = data, participants_set = None\<rparr>,
       isOwner := strictEq (JStr (uid cu)) (js_prop data ''creator'')\<rparr>"

section \<open>Properties of topicsClient.js\<close>

lemma normalizePost_None_iff:
  "fst (normalizePost c k p) = None \<longleftrightarrow> \<not> (isObject p \<or> isArray p)"
  by (cases p) (simp_all add: normalizePost_def)

lemma extractPosts_array: "extractPosts (JArr xs) = Inr xs"
  by (simp add: extractPosts_def)

lemma extractPosts_wrapped:
  "js_prop resp ''posts'' = JArr xs \<Longrightarrow> \<not> isArray resp \<Longrightarrow> extractPosts resp = Inr xs"
  by (cases resp) (auto simp add: extractPosts_def getp_def or_js_def)

lemma extractPosts_single:
  "isObject resp \<Longrightarrow> \<not> isArray (js_prop resp ''posts'') \<Longrightarrow> extractPosts resp = Inr [resp]"
  by (cases resp) (auto simp add: extractPosts_def getp_def or_js_def split: json.splits option.splits)

lemma extractPosts_primitive:
  "isPrimitive resp \<Longrightarrow> \<not> nullish resp \<Longrightarrow> extractPosts resp = Inr []"
  by (cases resp) (simp_all add: extractPosts_def getp_def or_js_def)

lemma extractPosts_shapes:
  assumes "\<not> nullish resp"
  shows "\<exists>cands. extractPosts resp = Inr cands
      \<and> (isArray resp \<longrightarrow> resp = JArr cands)
      \<and> (\<not> isArray resp \<and> isArray (js_prop resp ''posts'') \<longrightarrow> js_prop resp ''posts'' = JArr cands)
      \<and> (isObject resp \<and> \<not> isArray (js_prop resp ''posts'') \<longrightarrow> cands = [resp])
      \<and> (isPrimitive resp \<longrightarrow> cands = [])"
proof (cases resp)
  case (JArr xs)
  then show ?thesis by (simp add: extractPosts_array)
next
  case (JObj kvs)
  show ?thesis
  proof (cases "js_prop resp ''posts''")
    case (JArr xs)
    with JObj extractPosts_wrapped [of resp xs] show ?thesis by simp
  qed (use JObj extractPosts_single [of resp] in simp_all)
qed (use assms extractPosts_primitive [of resp] in simp_all)

lemma normalizePost_Some:
  assumes "fst (normalizePost c k p) = Some r"
  shows "r = \<lparr>
        id_post = js_prop p ''id'',
        title = or_js (js_prop p ''title'') (JStr []),
        content = or_js (js_prop p ''content'') (JStr []),
        author = or_js (js_prop p ''author'') (JStr ''Anonymous''),
        author_id = or_js (js_prop p ''author_id'') (or_js (js_prop p ''authorId'') JNull),
        userId = or_js (js_prop p ''userId'') (or_js (js_prop p ''author_id'') JNull),
        authorId = or_js (js_prop p ''author_id'') (or_js (js_prop p ''authorId'') JNull),
        created_at = or_js (js_prop p ''created_at'') (or_js (js_prop p ''created'') (JStr (c k))),
        created = or_js (js_prop p ''created_at'') (or_js (js_prop p ''created'') (JStr (c (k + 1)))),
        likes = (if typeof (js_prop p ''likes'') = ''number'' then js_prop p ''likes'' else JNum (Fin 0)),
        comments = or_js (js_prop p ''comments'') (JNum (Fin 0)),
        author_avatar = or_js (js_prop p ''author_avatar'') JNull\<rparr>"
proof (cases "\<not> truthy p \<or> typeof p \<noteq> ''object''")
  case True
  with assms show ?thesis unfolding normalizePost_def by simp
next
  case False
  with assms show ?thesis unfolding normalizePost_def by simp
qed

lemma normalizePost_fields:
  assumes "fst (normalizePost c k p) = Some r"
  shows "title r = (if truthy (js_prop p ''title'') then js_prop p ''title'' else JStr [])
       \<and> content r = (if truthy (js_prop p ''content'') then js_prop p ''content'' else JStr [])
       \<and> author r = (if truthy (js_prop p ''author'') then js_prop p ''author'' else JStr ''Anonymous'')
       \<and> authorId r = (if truthy (js_prop p ''author_id'') then js_prop p ''author_id''
                       else if truthy (js_prop p ''authorId'') then js_prop p ''authorId'' else JNull)
       \<and> created_at r = (if truthy (js_prop p ''created_at'') then js_prop p ''created_at''
                      else if truthy (js_prop p ''created'') then js_prop p ''created'' else JStr (c k))
       \<and> created r = (if truthy (js_prop p ''created_at'') then js_prop p ''created_at''
                      else if truthy (js_prop p ''created'') then js_prop p ''created''
                      else JStr (c (k + 1)))
       \<and> likes r = (if typeof (js_prop p ''likes'') = ''number'' then js_prop p ''likes'' else JNum (Fin 0))
       \<and> typeof (likes r) = ''number''"
  unfolding normalizePost_Some [OF assms] by (simp add: or_js_def)

lemma mapPosts_survivors:
  "list_all2 (\<lambda>p r. \<exists>k. fst (normalizePost c k p) = Some r)
     (filter (\<lambda>p. isObject p \<or> isArray p) xs) (List.map_filter (\<lambda>r. r) (mapPosts c k xs))"
proof (induction xs arbitrary: k)
  case Nil
  show ?case by (simp add: List.map_filter_def)
next
  case (Cons p xs)
  show ?case
  proof (cases "fst (normalizePost c k p)")
    case None
    with Cons [of "snd (normalizePost c k p)"] normalizePost_None_iff [of c k p]
    show ?thesis by (simp add: List.map_filter_def)
  next
    case (Some r)
    with Cons [of "snd (normalizePost c k p)"] normalizePost_None_iff [of c k p]
    show ?thesis by (auto simp: List.map_filter_def)
  qed
qed

lemma normalizePosts_survivors:
  "list_all2 (\<lambda>p r. \<exists>k. fst (normalizePost c k p) = Some r)
     (filter (\<lambda>p. isObject p \<or> isArray p) xs) (normalizePosts c xs)"
  unfolding normalizePosts_def by (rule mapPosts_survivors)

lemma getTopicPosts_fetched:
  assumes "truthy topicId" "convertible topicId"
    and "fetchJsonWithAuth env (postsRequest env topicId) = Inr resp"
    and "extractPosts resp = Inr cands"
  shows "getTopicPosts env topicId reqs =
           (Inr (normalizePosts (now env) cands), reqs @ [postsRequest env topicId])"
  using assms by (simp add: getTopicPosts_def getTopicPosts_try_def Let_def)

text \<open>
  Claim C1. For the payload \<open>{posts: [{id:"p1"}, "bad", {id:"p2", likes:"3"}]}\<close> and a
  non-empty topic id (any truthy value that converts to text, so every non-empty string),
  \<open>getTopicPosts\<close> returns exactly two records, for \<open>p1\<close> and \<open>p2\<close>, both with
  \<open>likes = 0\<close>: the normalizer takes \<open>likes\<close> over only when it is a number and otherwise
  puts 0 (the string \<open>"3"\<close> is not converted). The two time stamps of each record are the
  successive readings of the clock.
\<close>

theorem getTopicPosts_example:
  assumes "truthy topicId" "convertible topicId"
    and "fetchJsonWithAuth env (postsRequest env topicId) = Inr examplePosts"
  shows "getTopicPosts env topicId reqs =
           (Inr [\<lparr>id_post = JStr ''p1'', title = JStr [], content = JStr [],
                   author = JStr ''Anonymous'', author_id = JNull, userId = JNull, authorId = JNull,
                   created_at = JStr (now env 0), created = JStr (now env 1),
                   likes = JNum (Fin 0), comments = JNum (Fin 0), author_avatar = JNull\<rparr>,
                 \<lparr>id_post = JStr ''p2'', title = JStr [], content = JStr [],
                   author = JStr ''Anonymous'', author_id = JNull, userId = JNull, authorId = JNull,
                   created_at = JStr (now env 2), created = JStr (now env 3),
                   likes = JNum (Fin 0), comments = JNum (Fin 0), author_avatar = JNull\<rparr>],
            reqs @ [postsRequest env topicId])
         \<and> (\<forall>c k p r. fst (normalizePost c k p) = Some r \<longrightarrow>
               likes r = (case js_prop p ''likes'' of JNum n \<Rightarrow> JNum n | _ \<Rightarrow> JNum (Fin 0)))"
proof
  have "extractPosts examplePosts =
          Inr [JObj [(''id'', JStr ''p1'')], JStr ''bad'',
               JObj [(''id'', JStr ''p2''), (''likes'', JStr ''3'')]]"
    by (simp add: examplePosts_def extractPosts_def getp_def or_js_def)
  from getTopicPosts_fetched [OF assms this]
  show "getTopicPosts env topicId reqs =
           (Inr [\<lparr>id_post = JStr ''p1'', title = JStr [], content = JStr [],
                   author = JStr ''Anonymous'', author_id = JNull, userId = JNull, authorId = JNull,
                   created_at = JStr (now env 0), created = JStr (now env 1),
                   likes = JNum (Fin 0), comments = JNum (Fin 0), author_avatar = JNull\<rparr>,
                 \<lparr>id_post = JStr ''p2'', title = JStr [], content = JStr [],
                   author = JStr ''Anonymous'', author_id = JNull, userId = JNull, authorId = JNull,
                   created_at = JStr (now env 2), created = JStr (now env 3),
                   likes = JNum (Fin 0), comments = JNum (Fin 0), author_avatar = JNull\<rparr>],
            reqs @ [postsRequest env topicId])"
    by (simp add: normalizePosts_def List.map_filter_def normalizePost_def or_js_def numeral_2_eq_2 numeral_3_eq_3)
next
  show "\<forall>c k p r. fst (normalizePost c k p) = Some r \<longrightarrow>
               likes r = (case js_prop p ''likes'' of JNum n \<Rightarrow> JNum n | _ \<Rightarrow> JNum (Fin 0))"
  proof (intro allI impI)
    fix c k p r
    assume "fst (normalizePost c k p) = Some r"
    from normalizePost_fields [OF this]
    show "likes r = (case js_prop p ''likes'' of JNum n \<Rightarrow> JNum n | _ \<Rightarrow> JNum (Fin 0))"
      by (cases "js_prop p ''likes''") simp_all
  qed
qed

theorem getTopicPosts_example_witness:
  "truthy (JStr ''t1'') \<and> convertible (JStr ''t1'') \<and>
   fetchJsonWithAuth (exampleEnv\<lparr>fetchJsonWithAuth := \<lambda>r. Inr examplePosts\<rparr>)
     (postsRequest (exampleEnv\<lparr>fetchJsonWithAuth := \<lambda>r. Inr examplePosts\<rparr>) (JStr ''t1'')) = Inr examplePosts \<and>
   fst (getTopicPosts (exampleEnv\<lparr>fetchJsonWithAuth := \<lambda>r. Inr examplePosts\<rparr>) (JStr ''t1'') []) =
      Inr [\<lparr>id_post = JStr ''p1'', title = JStr [], content = JStr [],
             author = JStr ''Anonymous'', author_id = JNull, userId = JNull, authorId = JNull,
             created_at = JStr ''2025-01-01T00:00:00.000Z'', created = JStr ''2025-01-01T00:00:00.001Z'',
             likes = JNum (Fin 0), comments = JNum (Fin 0), author_avatar = JNull\<rparr>,
           \<lparr>id_post = JStr ''p2'', title = JStr [], content = JStr [],
             author = JStr ''Anonymous'', author_id = JNull, userId = JNull, authorId = JNull,
             created_at = JStr ''2025-01-01T00:00:00.000Z'', created = JStr ''2025-01-01T00:00:00.001Z'',
             likes = JNum (Fin 0), comments = JNum (Fin 0), author_avatar = JNull\<rparr>]"
  using getTopicPosts_example
    [of "JStr ''t1''" "exampleEnv\<lparr>fetchJsonWithAuth := \<lambda>r. Inr examplePosts\<rparr>" "[]"]
  by (simp add: exampleEnv_def)

text \<open>
  Claim C2, as amended. For every response, to the request of a topic id that converts to
  text, that is neither null nor undefined (a bare array, an object wrapping an array
  under \<open>posts\<close>, a single object, a primitive), the normalization of \<open>getTopicPosts\<close>
  does not raise: the candidates are the array, the wrapped array, the object alone or
  nothing; every candidate that is neither an object nor an array is dropped, every object
  and every array among them yields a record, in order; and each record has the field
  defaults (title and content \<open>""\<close>, author \<open>"Anonymous"\<close>, authorId null, each of
  \<open>created_at\<close> and \<open>created\<close> a reading of the clock taken while normalizing, likes a
  number, 0 unless the element has a number there).
\<close>

theorem getTopicPosts_normalizes:
  assumes "truthy topicId" "convertible topicId"
    and "fetchJsonWithAuth env (postsRequest env topicId) = Inr resp"
    and "\<not> nullish resp"
  shows "\<exists>cands. extractPosts resp = Inr cands
      \<and> (isArray resp \<longrightarrow> resp = JArr cands)
      \<and> (\<not> isArray resp \<and> isArray (js_prop resp ''posts'') \<longrightarrow> js_prop resp ''posts'' = JArr cands)
      \<and> (isObject resp \<and> \<not> isArray (js_prop resp ''posts'') \<longrightarrow> cands = [resp])
      \<and> (isPrimitive resp \<longrightarrow> cands = [])
      \<and> getTopicPosts env topicId reqs =
           (Inr (normalizePosts (now env) cands), reqs @ [postsRequest env topicId])
      \<and> list_all2 (\<lambda>p r. \<exists>k. fst (normalizePost (now env) k p) = Some r)
           (filter (\<lambda>p. isObject p \<or> isArray p) cands) (normalizePosts (now env) cands)
      \<and> (\<forall>p k. isObject p \<or> isArray p \<longrightarrow>
            (\<exists>r. fst (normalizePost (now env) k p) = Some r
               \<and> title r = (if truthy (js_prop p ''title'') then js_prop p ''title'' else JStr [])
               \<and> content r = (if truthy (js_prop p ''content'') then js_prop p ''content'' else JStr [])
               \<and> author r = (if truthy (js_prop p ''author'') then js_prop p ''author''
                              else JStr ''Anonymous'')
               \<and> authorId r = (if truthy (js_prop p ''author_id'') then js_prop p ''author_id''
                                else if truthy (js_prop p ''authorId'') then js_prop p ''authorId''
                                else JNull)
               \<and> created_at r = (if truthy (js_prop p ''created_at'') then js_prop p ''created_at''
                               else if truthy (js_prop p ''created'') then js_prop p ''created''
                               else JStr (now env k))
               \<and> created r = (if truthy (js_prop p ''created_at'') then js_prop p ''created_at''
                               else if truthy (js_prop p ''created'') then js_prop p ''created''
                               else JStr (now env (k + 1)))
               \<and> likes r = (if typeof (js_prop p ''likes'') = ''number'' then js_prop p ''likes''
                             else JNum (Fin 0))
               \<and> typeof (likes r) = ''number''))"
proof -
  from extractPosts_shapes [OF assms(4)] obtain cands where
    c: "extractPosts resp = Inr cands"
       "isArray resp \<longrightarrow> resp = JArr cands"
       "\<not> isArray resp \<and> isArray (js_prop resp ''posts'') \<longrightarrow> js_prop resp ''posts'' = JArr cands"
       "isObject resp \<and> \<not> isArray (js_prop resp ''posts'') \<longrightarrow> cands = [resp]"
       "isPrimitive resp \<longrightarrow> cands = []"
    by blast
  note g = getTopicPosts_fetched [OF assms(1-3) c(1), of reqs]
  note l = normalizePosts_survivors [of "now env" cands]
  have f: "\<exists>r. fst (normalizePost (now env) k p) = Some r
               \<and> title r = (if truthy (js_prop p ''title'') then js_prop p ''title'' else JStr [])
               \<and> content r = (if truthy (js_prop p ''content'') then js_prop p ''content'' else JStr [])
               \<and> author r = (if truthy (js_prop p ''author'') then js_prop p ''author''
                              else JStr ''Anonymous'')
               \<and> authorId r = (if truthy (js_prop p ''author_id'') then js_prop p ''author_id''
                                else if truthy (js_prop p ''authorId'') then js_prop p ''authorId''
                                else JNull)
               \<and> created_at r = (if truthy (js_prop p ''created_at'') then js_prop p ''created_at''
                               else if truthy (js_prop p ''created'') then js_prop p ''created''
                               else JStr (now env k))
               \<and> created r = (if truthy (js_prop p ''created_at'') then js_prop p ''created_at''
                               else if truthy (js_prop p ''created'') then js_prop p ''created''
                               else JStr (now env (k + 1)))
               \<and> likes r = (if typeof (js_prop p ''likes'') = ''number'' then js_prop p ''likes''
                             else JNum (Fin 0))
               \<and> typeof (likes r) = ''number''"
    if "isObject p \<or> isArray p" for p k
  proof -
    from that obtain r where r: "fst (normalizePost (now env) k p) = Some r"
      using normalizePost_None_iff [of "now env" k p] by (cases "fst (normalizePost (now env) k p)") auto
    from normalizePost_fields [OF r] r show ?thesis by blast
  qed
  from c g l f show ?thesis by blast
qed

theorem getTopicPosts_normalizes_witness:
  "truthy (JStr ''t1'') \<and> convertible (JStr ''t1'') \<and>
   \<not> nullish (JArr [JObj [(''id'', JStr ''p1''), (''likes'', JNum (Fin 4))], JNum (Fin 7), JNull]) \<and>
   fst (getTopicPosts
          (exampleEnv\<lparr>fetchJsonWithAuth :=
             \<lambda>r. Inr (JArr [JObj [(''id'', JStr ''p1''), (''likes'', JNum (Fin 4))], JNum (Fin 7), JNull])\<rparr>)
          (JStr ''t1'') []) =
     Inr [\<lparr>id_post = JStr ''p1'', title = JStr [], content = JStr [],
            author = JStr ''Anonymous'', author_id = JNull, userId = JNull, authorId = JNull,
            created_at = JStr ''2025-01-01T00:00:00.000Z'', created = JStr ''2025-01-01T00:00:00.001Z'',
            likes = JNum (Fin 4), comments = JNum (Fin 0), author_avatar = JNull\<rparr>]"
proof -
  let ?resp = "JArr [JObj [(''id'', JStr ''p1''), (''likes'', JNum (Fin 4))], JNum (Fin 7), JNull]"
  let ?env = "exampleEnv\<lparr>fetchJsonWithAuth := \<lambda>r. Inr ?resp\<rparr>"
  have h: "fetchJsonWithAuth ?env (postsRequest ?env (JStr ''t1'')) = Inr ?resp" by simp
  from getTopicPosts_normalizes [of "JStr ''t1''" ?env ?resp "[]", OF _ _ h]
  obtain cands where c: "?resp = JArr cands"
    and g: "getTopicPosts ?env (JStr ''t1'') [] =
           (Inr (normalizePosts (now ?env) cands), [] @ [postsRequest ?env (JStr ''t1'')])"
    by auto
  from c have cands: "cands = [JObj [(''id'', JStr ''p1''), (''likes'', JNum (Fin 4))], JNum (Fin 7), JNull]"
    by simp
  from g show ?thesis
    unfolding cands
    by (simp add: normalizePosts_def List.map_filter_def normalizePost_def or_js_def exampleEnv_def)
qed

theorem getTopicPosts_malformed_counterexample:
  "fst (getTopicPosts (exampleEnv\<lparr>fetchJsonWithAuth := \<lambda>r. Inr (JArr [JArr []])\<rparr>) (JStr ''t1'') []) =
     Inr [\<lparr>id_post = JUndefined, title = JStr [], content = JStr [],
            author = JStr ''Anonymous'', author_id = JNull, userId = JNull, authorId = JNull,
            created_at = JStr ''2025-01-01T00:00:00.000Z'', created = JStr ''2025-01-01T00:00:00.001Z'',
            likes = JNum (Fin 0), comments = JNum (Fin 0), author_avatar = JNull\<rparr>]
   \<and> fst (getTopicPosts (exampleEnv\<lparr>fetchJsonWithAuth := \<lambda>r. Inr JNull\<rparr>) (JStr ''t1'') []) =
     Inl (Error (''GET /api/topics/:id/posts failed: Cannot read properties of null (reading ''
                 @ [CHR 0x27] @ ''posts'' @ [CHR 0x27] @ '')''))"
  by (simp add: getTopicPosts_def getTopicPosts_try_def Let_def exampleEnv_def extractPosts_def getp_def
      or_js_def normalizePosts_def List.map_filter_def normalizePost_def)

text \<open>
  Claim C5. For every falsy \<open>postId\<close> (missing, the empty string, null), \<open>togglePostLike\<close>
  fails with the error \<open>postId required\<close> and issues no request.
\<close>

theorem togglePostLike_requires_postId:
  "\<not> truthy postId \<Longrightarrow> togglePostLike env postId reqs = (Inl (Error ''postId required''), reqs)"
  by (simp add: togglePostLike_def)

theorem togglePostLike_requires_postId_witness:
  "togglePostLike exampleEnv JUndefined [] = (Inl (Error ''postId required''), []) \<and>
   togglePostLike exampleEnv (JStr []) [] = (Inl (Error ''postId required''), []) \<and>
   togglePostLike exampleEnv JNull [] = (Inl (Error ''postId required''), [])"
  using togglePostLike_requires_postId [of JUndefined exampleEnv "[]"]
    togglePostLike_requires_postId [of "JStr []" exampleEnv "[]"]
    togglePostLike_requires_postId [of JNull exampleEnv "[]"]
  by simp

text \<open>
  Claim C6, as amended. \<open>togglePostLike\<close> with a truthy \<open>postId\<close> that converts to text
  issues the single POST; when the response is neither an object nor an array the call
  fails with \<open>Invalid response from server\<close>; otherwise (an array passes the check as an
  object does) the result has \<open>liked\<close> true exactly when the response's \<open>liked\<close> is the
  boolean true, and \<open>likes\<close> the response's \<open>likes\<close> when that is a number and 0
  otherwise. A \<open>postId\<close> whose conversion raises makes the call fail before any request.
\<close>

theorem togglePostLike_response:
  "(truthy postId \<and> convertible postId \<and> postJsonWithAuth env (likeRequest env postId) = Inr resp \<longrightarrow>
      snd (togglePostLike env postId reqs) = reqs @ [likeRequest env postId]
    \<and> (if isObject resp \<or> isArray resp then
          fst (togglePostLike env postId reqs) =
            Inr \<lparr>liked = (js_prop resp ''liked'' = JBool True),
                 likes_count = (case js_prop resp ''likes'' of JNum n \<Rightarrow> JNum n | _ \<Rightarrow> JNum (Fin 0)),
                 post_id = (if truthy (js_prop resp ''post_id'') then js_prop resp ''post_id'' else postId)\<rparr>
        else fst (togglePostLike env postId reqs) =
            Inl (Error ''Toggle like failed: Invalid response from server'')))
   \<and> (truthy postId \<and> \<not> convertible postId \<longrightarrow>
        togglePostLike env postId reqs =
          (Inl (Error ''Toggle like failed: Cannot convert object to primitive value''), reqs))"
proof (intro conjI impI)
  assume a: "truthy postId \<and> convertible postId \<and> postJsonWithAuth env (likeRequest env postId) = Inr resp"
  then show "snd (togglePostLike env postId reqs) = reqs @ [likeRequest env postId]"
    by (simp add: togglePostLike_def togglePostLike_try_def Let_def)
  from a show "if isObject resp \<or> isArray resp then
          fst (togglePostLike env postId reqs) =
            Inr \<lparr>liked = (js_prop resp ''liked'' = JBool True),
                 likes_count = (case js_prop resp ''likes'' of JNum n \<Rightarrow> JNum n | _ \<Rightarrow> JNum (Fin 0)),
                 post_id = (if truthy (js_prop resp ''post_id'') then js_prop resp ''post_id'' else postId)\<rparr>
        else fst (togglePostLike env postId reqs) =
            Inl (Error ''Toggle like failed: Invalid response from server'')"
    by (cases resp; cases "js_prop resp ''likes''")
       (simp_all add: togglePostLike_def togglePostLike_try_def Let_def or_js_def)
next
  assume "truthy postId \<and> \<not> convertible postId"
  then show "togglePostLike env postId reqs =
          (Inl (Error ''Toggle like failed: Cannot convert object to primitive value''), reqs)"
    by (simp add: togglePostLike_def togglePostLike_try_def)
qed

theorem togglePostLike_response_witness:
  "truthy (JStr ''p1'') \<and> convertible (JStr ''p1'') \<and>
   fst (togglePostLike
          (exampleEnv\<lparr>postJsonWithAuth := \<lambda>r. Inr (JObj [(''liked'', JBool True), (''likes'', JNum (Fin 5))])\<rparr>)
          (JStr ''p1'') []) =
     Inr \<lparr>liked = True, likes_count = JNum (Fin 5), post_id = JStr ''p1''\<rparr> \<and>
   fst (togglePostLike (exampleEnv\<lparr>postJsonWithAuth := \<lambda>r. Inr (JStr ''ok'')\<rparr>) (JStr ''p1'') []) =
     Inl (Error ''Toggle like failed: Invalid response from server'') \<and>
   truthy (JObj [(''toString'', JNum (Fin 1))]) \<and> \<not> convertible (JObj [(''toString'', JNum (Fin 1))]) \<and>
   togglePostLike exampleEnv (JObj [(''toString'', JNum (Fin 1))]) [] =
     (Inl (Error ''Toggle like failed: Cannot convert object to primitive value''), [])"
  using togglePostLike_response
      [of "JStr ''p1''"
          "exampleEnv\<lparr>postJsonWithAuth := \<lambda>r. Inr (JObj [(''liked'', JBool True), (''likes'', JNum (Fin 5))])\<rparr>"
          "JObj [(''liked'', JBool True), (''likes'', JNum (Fin 5))]" "[]"]
    togglePostLike_response
      [of "JStr ''p1''" "exampleEnv\<lparr>postJsonWithAuth := \<lambda>r. Inr (JStr ''ok'')\<rparr>" "JStr ''ok''" "[]"]
    togglePostLike_response
      [of "JObj [(''toString'', JNum (Fin 1))]" exampleEnv JNull "[]"]
  by (simp add: exampleEnv_def)

theorem togglePostLike_array_counterexample:
  "\<not> isObject (JArr []) \<and>
   togglePostLike (exampleEnv\<lparr>postJsonWithAuth := \<lambda>r. Inr (JArr [])\<rparr>) (JStr ''p1'') [] =
     (Inr \<lparr>liked = False, likes_count = JNum (Fin 0), post_id = JStr ''p1''\<rparr>,
      [Request POST [Lit ''https://api.example'', Lit ''/api/posts/'', Enc (JStr ''p1''), Lit ''/like'']])"
  by (simp add: togglePostLike_def togglePostLike_try_def likeRequest_def exampleEnv_def Let_def or_js_def)

section \<open>Properties of room-manager.js\<close>

lemma toast_frame:
  "requests (toast env t w) = requests w" "timeouts (toast env t w) = timeouts w"
  "confirms (toast env t w) = confirms w" "rendered (toast env t w) = rendered w"
  by (simp_all add: toast_def)

lemma updateParticipantsList_frame:
  "updateParticipantsList env s w = Inr w' \<Longrightarrow>
     requests w' = requests w \<and> toasts w' = toasts w \<and> timeouts w' = timeouts w \<and> confirms w' = confirms w"
  by (auto simp: updateParticipantsList_def split: if_splits)

lemma setParticipants_fst: "fst (setParticipants env s w ps) = s\<lparr>participants := ps\<rparr>"
  by (simp add: setParticipants_def Let_def split: sum.splits)

lemma setParticipants_world:
  "requests (snd (setParticipants env s w ps)) = requests w"
  "toasts (snd (setParticipants env s w ps)) = toasts w"
  "timeouts (snd (setParticipants env s w ps)) = timeouts w"
  "confirms (snd (setParticipants env s w ps)) = confirms w"
  by (auto simp: setParticipants_def Let_def dest: updateParticipantsList_frame split: sum.splits)

lemma loadSelfOnly_world:
  "requests (snd (loadSelfOnly env s w)) = requests w"
  "toasts (snd (loadSelfOnly env s w)) = toasts w"
  "timeouts (snd (loadSelfOnly env s w)) = timeouts w"
  "confirms (snd (loadSelfOnly env s w)) = confirms w"
  unfolding loadSelfOnly_def
  by (simp_all add: setParticipants_world split: sum.splits option.splits)

lemma loadAll_world:
  "requests (snd (loadAll env s w ms)) = requests w"
  "toasts (snd (loadAll env s w ms)) = toasts w"
  "timeouts (snd (loadAll env s w ms)) = timeouts w"
  "confirms (snd (loadAll env s w ms)) = confirms w"
  unfolding loadAll_def Let_def
  by (simp_all add: setParticipants_world split: sum.splits)

lemma loadParticipantsInfo_world:
  "requests (snd (loadParticipantsInfo env s w)) = requests w"
  "toasts (snd (loadParticipantsInfo env s w)) = toasts w"
  "timeouts (snd (loadParticipantsInfo env s w)) = timeouts w"
  "confirms (snd (loadParticipantsInfo env s w)) = confirms w"
  unfolding loadParticipantsInfo_def Let_def
  by (simp_all add: loadSelfOnly_world loadAll_world)

lemma loadSelfOnly_frame: "\<exists>ps. fst (loadSelfOnly env s w) = s\<lparr>participants := ps\<rparr>"
proof (cases "fst (loadSelfOnly env s w) = s")
  case True
  then have "fst (loadSelfOnly env s w) = s\<lparr>participants := participants s\<rparr>" by simp
  then show ?thesis ..
next
  case False
  then show ?thesis
    unfolding loadSelfOnly_def
    by (auto simp: setParticipants_fst split: sum.splits option.splits)
qed

lemma loadSelfOnly_parts:
  "participants (fst (loadSelfOnly env s w)) = participants s \<or>
   (\<exists>cu p. currentUser s = Some cu \<and> participants (fst (loadSelfOnly env s w)) = [p]
      \<and> id_participant p = JStr (uid cu) \<and> isHost p = isOwner s)"
  unfolding loadSelfOnly_def
  by (simp add: setParticipants_fst currentUid_def uidValue_def split: sum.splits option.splits)

lemma minimalRecord_id:
  "minimalRecord s u = Inr p \<Longrightarrow>
     id_participant p = u \<and> isHost p = strictEq (room_prop (currentRoomData s) ''creator'') u"
  unfolding minimalRecord_def by (auto split: sum.splits)

lemma participantRecord_id:
  "participantRecord s info ph u = Inr p \<Longrightarrow>
     id_participant p = u \<and> isHost p = strictEq (room_prop (currentRoomData s) ''creator'') u"
  unfolding participantRecord_def by (auto split: sum.splits)

lemma buildParticipant_id:
  "buildParticipant env s m u = Inr p \<Longrightarrow>
     id_participant p = u \<and> isHost p = strictEq (room_prop (currentRoomData s) ''creator'') u"
  unfolding buildParticipant_def
  by (auto split: sum.splits dest: minimalRecord_id participantRecord_id)

lemma buildParticipant_string: "\<exists>p. buildParticipant env s m (JStr u) = Inr p"
  unfolding buildParticipant_def minimalRecord_def by (simp add: substring8_def split: sum.splits)

lemma promiseAll_map:
  "promiseAll (map f xs) = Inr ps \<Longrightarrow> list_all2 (\<lambda>x p. f x = Inr p) xs ps"
  by (induction xs arbitrary: ps) (auto split: sum.splits)

lemma promiseAll_total:
  "(\<And>x. x \<in> set xs \<Longrightarrow> \<exists>p. f x = Inr p) \<Longrightarrow> \<exists>ps. promiseAll (map f xs) = Inr ps"
proof (induction xs)
  case Nil
  show ?case by simp
next
  case (Cons a xs)
  from Cons.prems [of a] obtain p where "f a = Inr p" by auto
  moreover from Cons.IH Cons.prems obtain ps where "promiseAll (map f xs) = Inr ps" by auto
  ultimately show ?case by simp
qed

lemma built_ids:
  assumes "list_all2 (\<lambda>x p. buildParticipant env s m x = Inr p) xs ps"
  shows "map id_participant ps = xs
       \<and> (\<forall>p\<in>set ps. isHost p = strictEq (room_prop (currentRoomData s) ''creator'') (id_participant p))"
  using assms by (induction xs ps rule: list_all2_induct) (auto dest: buildParticipant_id)

lemma loadAll_frame: "\<exists>ps. fst (loadAll env s w ms) = s\<lparr>participants := ps\<rparr>"
proof (cases "fst (loadAll env s w ms) = s")
  case True
  then have "fst (loadAll env s w ms) = s\<lparr>participants := participants s\<rparr>" by simp
  then show ?thesis ..
next
  case False
  then show ?thesis
    unfolding loadAll_def Let_def
    by (auto simp: setParticipants_fst split: sum.splits)
qed

lemma loadAll_parts:
  "participants (fst (loadAll env s w ms)) = participants s \<or>
   (map id_participant (participants (fst (loadAll env s w ms))) = dedup [] (filter truthy ms)
      \<and> (\<forall>p\<in>set (participants (fst (loadAll env s w ms))).
            isHost p = strictEq (room_prop (currentRoomData s) ''creator'') (id_participant p)))"
proof (cases "getUserDisplayInfos env (dedup [] (filter truthy ms))")
  case (Inl e)
  then show ?thesis by (simp add: loadAll_def)
next
  case (Inr m)
  show ?thesis
  proof (cases "promiseAll (map (buildParticipant env s m) (dedup [] (filter truthy ms)))")
    case (Inl e)
    with Inr show ?thesis by (simp add: loadAll_def)
  next
    case r: (Inr ps)
    from built_ids [OF promiseAll_map [OF r]] Inr r show ?thesis
      by (simp add: loadAll_def setParticipants_fst)
  qed
qed

lemma loadParticipantsInfo_frame:
  "\<exists>ps. fst (loadParticipantsInfo env s w) = s\<lparr>participants := ps\<rparr>"
proof -
  let ?s0 = "s\<lparr>participants := []\<rparr>"
  from loadSelfOnly_frame [of env ?s0 w] loadAll_frame [of env ?s0 w]
  show ?thesis
    unfolding loadParticipantsInfo_def Let_def by (auto split: if_splits)
qed

lemma dedup_fresh:
  "x \<in> set (dedup seen xs) \<Longrightarrow> isPrimitive x \<Longrightarrow> x \<notin> set seen"
proof (induction xs arbitrary: seen)
  case Nil
  then show ?case by simp
next
  case (Cons a xs)
  show ?case
  proof (cases "list_ex (\<lambda>y. strictEq y a) seen")
    case True
    with Cons show ?thesis by simp
  next
    case False
    with Cons.prems have "x = a \<or> x \<in> set (dedup (seen @ [a]) xs)" by simp
    then show ?thesis
    proof
      assume "x = a"
      with False Cons.prems(2) show ?thesis by (auto simp: list_ex_iff strictEq_def)
    next
      assume "x \<in> set (dedup (seen @ [a]) xs)"
      from Cons.IH [OF this Cons.prems(2)] show ?thesis by simp
    qed
  qed
qed

lemma dedup_distinct: "distinct (filter isPrimitive (dedup seen xs))"
proof (induction xs arbitrary: seen)
  case Nil
  show ?case by simp
next
  case (Cons a xs)
  show ?case
  proof (cases "list_ex (\<lambda>y. strictEq y a) seen")
    case True
    with Cons show ?thesis by simp
  next
    case False
    have "a \<notin> set (filter isPrimitive (dedup (seen @ [a]) xs))"
      using dedup_fresh [of a "seen @ [a]" xs] by auto
    moreover have "distinct (filter isPrimitive (dedup (seen @ [a]) xs))"
      by (rule Cons.IH)
    ultimately show ?thesis using False by auto
  qed
qed

lemma truthy_not_nullish: "truthy v \<Longrightarrow> \<not> nullish v"
  by (cases v) simp_all

lemma room_getp_ok: "\<not> nullish (fetched r) \<Longrightarrow> room_getp r k = Inr (room_prop r k)"
  by (cases "fetched r") (simp_all add: room_getp_def getp_def)

lemma room_prop_fetched: "room_prop \<lparr>fetched = d, participants_set = None\<rparr> k = js_prop d k"
  by (simp add: room_prop_def)

lemma strictEq_JStr: "strictEq (JStr u) c = (c = JStr u)" "strictEq c (JStr u) = (c = JStr u)"
  by (auto simp: strictEq_def)




lemma addCurrentUser_keeps:
  "currentUser (addCurrentUser s m) = currentUser s"
  "isOwner (addCurrentUser s m) = isOwner s"
  "fetched (currentRoomData (addCurrentUser s m)) = fetched (currentRoomData s)"
  unfolding addCurrentUser_def room_set_participants_def
  by (simp_all split: sum.splits)

lemma joinRoom_keeps:
  "currentUser (fst (joinRoom env s w m)) = currentUser s"
  "isOwner (fst (joinRoom env s w m)) = isOwner s"
  "fetched (currentRoomData (fst (joinRoom env s w m))) = fetched (currentRoomData s)"
  unfolding joinRoom_def Let_def
  by (simp_all add: addCurrentUser_keeps split: sum.splits)

lemma joinRoom_world:
  "toasts (snd (joinRoom env s w m)) = toasts w"
  "timeouts (snd (joinRoom env s w m)) = timeouts w"
  unfolding joinRoom_def Let_def
  by (simp_all split: sum.splits)

lemma autoJoinRoom_keeps:
  "currentUser (fst (autoJoinRoom env s w)) = currentUser s"
  "isOwner (fst (autoJoinRoom env s w)) = isOwner s"
  "fetched (currentRoomData (fst (autoJoinRoom env s w))) = fetched (currentRoomData s)"
  unfolding autoJoinRoom_def Let_def
  by (simp_all add: joinRoom_keeps split: sum.splits)

lemma autoJoinRoom_world:
  "toasts (snd (autoJoinRoom env s w)) = toasts w"
  "timeouts (snd (autoJoinRoom env s w)) = timeouts w"
  unfolding autoJoinRoom_def Let_def
  by (simp_all add: joinRoom_world split: sum.splits)

lemma autoJoinRoom_skip:
  "js_includes (or_js (room_getp_opt (currentRoomData s) ''participants'') (JArr [])) (currentUid s) = Inr True
     \<Longrightarrow> autoJoinRoom env s w = (s, w)"
  by (simp add: autoJoinRoom_def Let_def)

lemma autoJoinRoom_join:
  assumes "js_includes (or_js (room_getp_opt (currentRoomData s) ''participants'') (JArr [])) (currentUid s) = Inr False"
    and "\<not> nullish (fetched (currentRoomData s))"
    and "convertible (or_js (room_prop (currentRoomData s) ''_id'') (room_prop (currentRoomData s) ''id''))"
    and "getp (window_CONFIG env) ''apiBase'' = Inr base"
  shows "snd (autoJoinRoom env s w) =
           w\<lparr>requests := requests w @ [joinRequest base
              (or_js (room_prop (currentRoomData s) ''_id'') (room_prop (currentRoomData s) ''id''))]\<rparr>"
    and "postJsonWithAuth env (joinRequest base
              (or_js (room_prop (currentRoomData s) ''_id'') (room_prop (currentRoomData s) ''id''))) = Inl err
         \<Longrightarrow> fst (autoJoinRoom env s w) = s"
  using assms
  by (simp_all add: autoJoinRoom_def joinRoom_def Let_def room_getp_ok split: sum.splits)


lemma loadRoomData_fetched:
  assumes "locationRoom env = Some roomId" "roomId \<noteq> []"
    and "getp (window_CONFIG env) ''apiBase'' = Inr base"
    and "fetchJsonWithAuth env (roomRequest base (JStr roomId)) = Inr data" "truthy data"
    and "currentUser s = Some cu"
  shows "loadRoomData env s w =
     (let j = autoJoinRoom env (fetchedState s cu data)
                (w\<lparr>requests := requests w @ [roomRequest base (JStr roomId)]\<rparr>);
          l = loadParticipantsInfo env (fst j) (snd j)
      in (Inr (currentRoomData (fst l)), (fst l)\<lparr>isLoading := False\<rparr>, snd l))"
  using assms
  by (simp add: loadRoomData_def loadRoomData_try_def Let_def fetchedState_def room_prop_fetched
      split: prod.splits)

lemma loadRoomData_success:
  assumes "fst (loadRoomData env s w) = Inr room"
  shows "\<exists>roomId base data cu. locationRoom env = Some roomId \<and> roomId \<noteq> [] \<and>
           getp (window_CONFIG env) ''apiBase'' = Inr base \<and>
           fetchJsonWithAuth env (roomRequest base (JStr roomId)) = Inr data \<and> truthy data \<and>
           currentUser s = Some cu"
  using assms
  unfolding loadRoomData_def loadRoomData_try_def Let_def
  by (auto split: option.splits if_splits sum.splits prod.splits)

lemma loadRoomData_try_failure:
  assumes "loadRoomData_try env s w = (Inl err, s1, w1)"
  shows "toasts w1 = toasts w \<and> timeouts w1 = timeouts w"
  using assms
  unfolding loadRoomData_try_def Let_def
  by (auto split: option.splits if_splits sum.splits prod.splits)

lemma members_fetched:
  "room_getp_opt \<lparr>fetched = d, participants_set = None\<rparr> k = (if nullish d then JUndefined else js_prop d k)"
  by (simp add: room_getp_opt_def room_prop_def)

lemma fetchedState_simps:
  "currentUser (fetchedState s cu d) = currentUser s"
  "currentRoomData (fetchedState s cu d) = \<lparr>fetched = d, participants_set = None\<rparr>"
  "isOwner (fetchedState s cu d) = (js_prop d ''creator'' = JStr (uid cu))"
  by (simp_all add: fetchedState_def strictEq_JStr)

text \<open>
  Claim C7. When \<open>loadRoomData\<close> fetches a room whose list of participants already
  contains the current user's id, it issues no join request: the only request is the GET of
  the room, and the room is left as fetched.
\<close>

theorem loadRoomData_member_no_join:
  assumes "locationRoom env = Some roomId" "roomId \<noteq> []"
    and "getp (window_CONFIG env) ''apiBase'' = Inr base"
    and "fetchJsonWithAuth env (roomRequest base (JStr roomId)) = Inr data"
    and "currentUser s = Some cu"
    and "js_prop data ''participants'' = JArr ms" "JStr (uid cu) \<in> set ms"
  shows "requests (snd (snd (loadRoomData env s w))) = requests w @ [roomRequest base (JStr roomId)]
       \<and> fst (loadRoomData env s w) = Inr \<lparr>fetched = data, participants_set = None\<rparr>"
proof -
  from assms(6) have obj: "isObject data" by (cases data) simp_all
  then have t: "truthy data" by (cases data) simp_all
  let ?s = "fetchedState s cu data"
  let ?w = "w\<lparr>requests := requests w @ [roomRequest base (JStr roomId)]\<rparr>"
  have "js_includes (or_js (room_getp_opt (currentRoomData ?s) ''participants'') (JArr [])) (currentUid ?s) = Inr True"
    using assms(5,6,7) t
    by (auto simp: fetchedState_simps members_fetched truthy_not_nullish or_js_def js_includes_def
        currentUid_def uidValue_def strictEq_def list_ex_iff)
  then have j: "autoJoinRoom env ?s ?w = (?s, ?w)" by (rule autoJoinRoom_skip)
  obtain ps where l: "fst (loadParticipantsInfo env ?s ?w) = ?s\<lparr>participants := ps\<rparr>"
    using loadParticipantsInfo_frame by blast
  show ?thesis
    using loadRoomData_fetched [OF assms(1-4) t assms(5), of w] j l
    by (simp add: Let_def loadParticipantsInfo_world fetchedState_simps)
qed

lemma dedup_subset: "set (dedup seen xs) \<subseteq> set xs"
  by (induction xs arbitrary: seen) auto

lemma loadAll_rejected:
  "getUserDisplayInfos env (dedup [] (filter truthy ms)) = Inl e \<Longrightarrow> fst (loadAll env s w ms) = s"
  by (simp add: loadAll_def)

lemma loadAll_resolved:
  assumes "getUserDisplayInfos env (dedup [] (filter truthy ms)) = Inr m"
    and "\<forall>u\<in>set ms. truthy u \<longrightarrow> typeof u = ''string''"
  shows "map id_participant (participants (fst (loadAll env s w ms))) = dedup [] (filter truthy ms)"
    and "\<forall>p\<in>set (participants (fst (loadAll env s w ms))).
           isHost p = strictEq (room_prop (currentRoomData s) ''creator'') (id_participant p)"
proof -
  have "\<exists>p. buildParticipant env s m u = Inr p" if "u \<in> set (dedup [] (filter truthy ms))" for u
  proof -
    from that dedup_subset have "u \<in> set (filter truthy ms)" by blast
    with assms(2) obtain t where "u = JStr t" by (cases u) auto
    then show ?thesis using buildParticipant_string by simp
  qed
  from promiseAll_total [of "dedup [] (filter truthy ms)" "buildParticipant env s m", OF this]
  obtain ps where ps: "promiseAll (map (buildParticipant env s m) (dedup [] (filter truthy ms))) = Inr ps"
    by blast
  have "fst (loadAll env s w ms) = s\<lparr>participants := ps\<rparr>"
    using assms(1) ps by (simp add: loadAll_def setParticipants_fst)
  with built_ids [OF promiseAll_map [OF ps]]
  show "map id_participant (participants (fst (loadAll env s w ms))) = dedup [] (filter truthy ms)"
    and "\<forall>p\<in>set (participants (fst (loadAll env s w ms))).
           isHost p = strictEq (room_prop (currentRoomData s) ''creator'') (id_participant p)"
    by simp_all
qed

lemma loadSelfOnly_resolved:
  assumes "getUserDisplayInfo env (JStr (uid cu)) = Inr info" "\<not> nullish info"
    and "currentUser s = Some cu"
  shows "participants (fst (loadSelfOnly env s w)) =
           [\<lparr>id_participant = JStr (uid cu), name = js_prop info ''displayName'',
             avatar = js_prop info ''avatar'',
             photo = or_js (photoURL cu) (or_js (photo_user cu) JNull),
             status_participant = ''online'', isHost = isOwner s, inCall = False\<rparr>]"
  using assms
  by (cases info)
     (simp_all add: loadSelfOnly_def getp_def setParticipants_fst currentUid_def uidValue_def)

lemma loadParticipantsInfo_list:
  assumes "room_getp_opt (currentRoomData s) ''participants'' = JArr ms" "ms \<noteq> []"
  shows "fst (loadParticipantsInfo env s w) = fst (loadAll env (s\<lparr>participants := []\<rparr>) w ms)"
  using assms by (simp add: loadParticipantsInfo_def Let_def)

lemma loadParticipantsInfo_self:
  assumes "or_js (room_getp_opt (currentRoomData s) ''participants'') (JArr []) = JArr []"
  shows "fst (loadParticipantsInfo env s w) = fst (loadSelfOnly env (s\<lparr>participants := []\<rparr>) w)"
proof (cases "truthy (room_getp_opt (currentRoomData s) ''participants'')")
  case True
  with assms have "room_getp_opt (currentRoomData s) ''participants'' = JArr []"
    by (simp add: or_js_def)
  then show ?thesis by (simp add: loadParticipantsInfo_def Let_def)
next
  case False
  then show ?thesis by (simp add: loadParticipantsInfo_def Let_def)
qed

lemma loadRoomData_join_failed:
  assumes "locationRoom env = Some roomId" "roomId \<noteq> []"
    and "getp (window_CONFIG env) ''apiBase'' = Inr base"
    and "fetchJsonWithAuth env (roomRequest base (JStr roomId)) = Inr data" "truthy data"
    and "currentUser s = Some cu"
    and "js_includes (or_js (js_prop data ''participants'') (JArr [])) (Some (uid cu)) = Inr False"
    and "convertible (or_js (js_prop data ''_id'') (js_prop data ''id''))"
  shows "requests (snd (snd (loadRoomData env s w))) =
           requests w @ [roomRequest base (JStr roomId),
                         joinRequest base (or_js (js_prop data ''_id'') (js_prop data ''id''))]"
    and "postJsonWithAuth env (joinRequest base (or_js (js_prop data ''_id'') (js_prop data ''id''))) = Inl err
         \<Longrightarrow> loadRoomData env s w =
               (Inr \<lparr>fetched = data, participants_set = None\<rparr>,
                (fst (loadParticipantsInfo env (fetchedState s cu data)
                   (w\<lparr>requests := requests w @ [roomRequest base (JStr roomId),
                         joinRequest base (or_js (js_prop data ''_id'') (js_prop data ''id''))]\<rparr>)))
                \<lparr>isLoading := False\<rparr>,
                snd (loadParticipantsInfo env (fetchedState s cu data)
                   (w\<lparr>requests := requests w @ [roomRequest base (JStr roomId),
                         joinRequest base (or_js (js_prop data ''_id'') (js_prop data ''id''))]\<rparr>)))"
proof -
  let ?s = "fetchedState s cu data"
  let ?w = "w\<lparr>requests := requests w @ [roomRequest base (JStr roomId)]\<rparr>"
  let ?j = "joinRequest base (or_js (js_prop data ''_id'') (js_prop data ''id''))"
  let ?w2 = "w\<lparr>requests := requests w @ [roomRequest base (JStr roomId), ?j]\<rparr>"
  have n: "\<not> nullish (fetched (currentRoomData ?s))"
    using assms(5) by (simp add: fetchedState_simps truthy_not_nullish)
  have inc: "js_includes (or_js (room_getp_opt (currentRoomData ?s) ''participants'') (JArr [])) (currentUid ?s) = Inr False"
    using assms(5,6,7) by (simp add: fetchedState_simps members_fetched truthy_not_nullish currentUid_def)
  have rp: "or_js (room_prop (currentRoomData ?s) ''_id'') (room_prop (currentRoomData ?s) ''id'')
            = or_js (js_prop data ''_id'') (js_prop data ''id'')"
    by (simp add: fetchedState_simps room_prop_fetched)
  have cv: "convertible (or_js (room_prop (currentRoomData ?s) ''_id'') (room_prop (currentRoomData ?s) ''id''))"
    using assms(8) by (simp add: rp)
  have w2: "snd (autoJoinRoom env ?s ?w) = ?w2"
    using autoJoinRoom_join(1) [OF inc n cv assms(3), where w = ?w] by (simp add: rp)
  have unfold: "loadRoomData env s w =
     (let l = loadParticipantsInfo env (fst (autoJoinRoom env ?s ?w)) ?w2
      in (Inr (currentRoomData (fst l)), (fst l)\<lparr>isLoading := False\<rparr>, snd l))"
    using loadRoomData_fetched [OF assms(1-6), of w] w2 by (simp add: Let_def)
  show "requests (snd (snd (loadRoomData env s w))) =
           requests w @ [roomRequest base (JStr roomId), ?j]"
    by (simp add: unfold Let_def loadParticipantsInfo_world)
  show "loadRoomData env s w =
               (Inr \<lparr>fetched = data, participants_set = None\<rparr>,
                (fst (loadParticipantsInfo env ?s ?w2))\<lparr>isLoading := False\<rparr>,
                snd (loadParticipantsInfo env ?s ?w2))"
    if "postJsonWithAuth env ?j = Inl err"
  proof -
    have s3: "fst (autoJoinRoom env ?s ?w) = ?s"
      using autoJoinRoom_join(2) [OF inc n cv assms(3), where err = err and w = ?w] that by (simp add: rp)
    obtain ps where l: "fst (loadParticipantsInfo env ?s ?w2) = ?s\<lparr>participants := ps\<rparr>"
      using loadParticipantsInfo_frame by blast
    show ?thesis
      using l by (simp add: unfold s3 Let_def fetchedState_simps)
  qed
qed

text \<open>
  Claim C3. When \<open>loadRoomData\<close> fetches a room, with an id that converts to text, whose
  list of participants (none counts as the empty list) does not contain the current user's
  id, it issues exactly one join request, after the GET. If the join request fails,
  \<open>loadRoomData\<close> still returns the room, unchanged, without raising, showing a toast or
  scheduling a redirect, and the participants are loaded from the list as fetched: for a
  non-empty list of strings whose batch lookup resolves there is one record for each
  distinct non-empty id of the list, in order, and none for the current user; when the
  batch lookup rejects there is none; for an empty list there is the record of the
  current user alone, given that the user's lookup resolves.
\<close>

theorem loadRoomData_joins_once:
  assumes "locationRoom env = Some roomId" "roomId \<noteq> []"
    and "getp (window_CONFIG env) ''apiBase'' = Inr base"
    and "fetchJsonWithAuth env (roomRequest base (JStr roomId)) = Inr data" "truthy data"
    and "currentUser s = Some cu"
    and "or_js (js_prop data ''participants'') (JArr []) = JArr ms" "JStr (uid cu) \<notin> set ms"
    and "convertible (or_js (js_prop data ''_id'') (js_prop data ''id''))"
  shows "requests (snd (snd (loadRoomData env s w))) =
           requests w @ [roomRequest base (JStr roomId),
                         joinRequest base (or_js (js_prop data ''_id'') (js_prop data ''id''))]
       \<and> ((\<exists>err. postJsonWithAuth env (joinRequest base (or_js (js_prop data ''_id'') (js_prop data ''id''))) = Inl err) \<longrightarrow>
            fst (loadRoomData env s w) = Inr \<lparr>fetched = data, participants_set = None\<rparr>
          \<and> currentRoomData (fst (snd (loadRoomData env s w))) = \<lparr>fetched = data, participants_set = None\<rparr>
          \<and> \<not> isLoading (fst (snd (loadRoomData env s w)))
          \<and> toasts (snd (snd (loadRoomData env s w))) = toasts w
          \<and> timeouts (snd (snd (loadRoomData env s w))) = timeouts w
          \<and> (ms \<noteq> [] \<and> getUserDisplayInfos env (dedup [] (filter truthy ms)) = Inr m
               \<and> (\<forall>u\<in>set ms. truthy u \<longrightarrow> typeof u = ''string'') \<longrightarrow>
                map id_participant (participants (fst (snd (loadRoomData env s w)))) =
                  dedup [] (filter truthy ms)
              \<and> JStr (uid cu) \<notin> set (map id_participant (participants (fst (snd (loadRoomData env s w)))))
              \<and> (\<forall>p\<in>set (participants (fst (snd (loadRoomData env s w)))).
                    isHost p = strictEq (js_prop data ''creator'') (id_participant p)))
          \<and> (ms \<noteq> [] \<and> getUserDisplayInfos env (dedup [] (filter truthy ms)) = Inl e \<longrightarrow>
                participants (fst (snd (loadRoomData env s w))) = [])
          \<and> (ms = [] \<and> getUserDisplayInfo env (JStr (uid cu)) = Inr info \<and> \<not> nullish info \<longrightarrow>
                participants (fst (snd (loadRoomData env s w))) =
                  [\<lparr>id_participant = JStr (uid cu), name = js_prop info ''displayName'',
                    avatar = js_prop info ''avatar'',
                    photo = or_js (photoURL cu) (or_js (photo_user cu) JNull),
                    status_participant = ''online'',
                    isHost = (js_prop data ''creator'' = JStr (uid cu)), inCall = False\<rparr>]))"
proof -
  let ?j = "joinRequest base (or_js (js_prop data ''_id'') (js_prop data ''id''))"
  let ?w2 = "w\<lparr>requests := requests w @ [roomRequest base (JStr roomId), ?j]\<rparr>"
  let ?s = "fetchedState s cu data"
  let ?z = "?s\<lparr>participants := []\<rparr>"
  let ?P = "participants (fst (loadParticipantsInfo env ?s ?w2))"
  have inc: "js_includes (or_js (js_prop data ''participants'') (JArr [])) (Some (uid cu)) = Inr False"
    using assms(7,8) by (auto simp: js_includes_def uidValue_def strictEq_def list_ex_iff)
  note J = loadRoomData_join_failed [OF assms(1-6) inc assms(9), where w = w]
  have mem: "room_getp_opt (currentRoomData ?s) ''participants'' = js_prop data ''participants''"
    using assms(5) by (simp add: fetchedState_simps members_fetched truthy_not_nullish)
  have ms: "js_prop data ''participants'' = JArr ms" if "ms \<noteq> []"
    using assms(7) that by (auto simp: or_js_def split: if_splits)
  have cr: "room_prop (currentRoomData ?z) ''creator'' = js_prop data ''creator''"
    "room_prop (currentRoomData ?s) ''creator'' = js_prop data ''creator''"
    by (simp_all add: fetchedState_simps room_prop_fetched)
  have b0: "map id_participant ?P = dedup [] (filter truthy ms)
        \<and> JStr (uid cu) \<notin> set (map id_participant ?P)
        \<and> (\<forall>p\<in>set ?P. isHost p = strictEq (js_prop data ''creator'') (id_participant p))"
    if "ms \<noteq> []" "getUserDisplayInfos env (dedup [] (filter truthy ms)) = Inr m"
       "\<forall>u\<in>set ms. truthy u \<longrightarrow> typeof u = ''string''"
  proof -
    have l: "fst (loadParticipantsInfo env ?s ?w2) = fst (loadAll env ?z ?w2 ms)"
      using loadParticipantsInfo_list [of ?s ms env ?w2] ms [OF that(1)] that(1) by (simp add: mem)
    from loadAll_resolved [OF that(2,3), of ?z ?w2]
    have i: "map id_participant ?P = dedup [] (filter truthy ms)"
      and h: "\<forall>p\<in>set ?P. isHost p = strictEq (js_prop data ''creator'') (id_participant p)"
      by (simp_all add: l cr)
    have "JStr (uid cu) \<notin> set (dedup [] (filter truthy ms))"
      using dedup_subset [of "[]" "filter truthy ms"] assms(8) by auto
    with i h show ?thesis by simp
  qed
  have c0: "?P = []"
    if "ms \<noteq> []" "getUserDisplayInfos env (dedup [] (filter truthy ms)) = Inl e"
  proof -
    have l: "fst (loadParticipantsInfo env ?s ?w2) = fst (loadAll env ?z ?w2 ms)"
      using loadParticipantsInfo_list [of ?s ms env ?w2] ms [OF that(1)] that(1) by (simp add: mem)
    show ?thesis by (simp add: l loadAll_rejected [OF that(2)])
  qed
  have d0: "?P = [\<lparr>id_participant = JStr (uid cu), name = js_prop info ''displayName'',
                    avatar = js_prop info ''avatar'',
                    photo = or_js (photoURL cu) (or_js (photo_user cu) JNull),
                    status_participant = ''online'',
                    isHost = (js_prop data ''creator'' = JStr (uid cu)), inCall = False\<rparr>]"
    if "ms = []" "getUserDisplayInfo env (JStr (uid cu)) = Inr info" "\<not> nullish info"
  proof -
    have "or_js (room_getp_opt (currentRoomData ?s) ''participants'') (JArr []) = JArr []"
      using assms(7) that(1) by (simp add: mem)
    from loadParticipantsInfo_self [OF this, of env ?w2]
    have l: "fst (loadParticipantsInfo env ?s ?w2) = fst (loadSelfOnly env ?z ?w2)" .
    have u: "currentUser ?z = Some cu" using assms(6) by (simp add: fetchedState_simps)
    show ?thesis
      by (simp add: l loadSelfOnly_resolved [OF that(2,3) u] fetchedState_simps)
  qed
  have fail: "fst (loadRoomData env s w) = Inr \<lparr>fetched = data, participants_set = None\<rparr>
          \<and> currentRoomData (fst (snd (loadRoomData env s w))) = \<lparr>fetched = data, participants_set = None\<rparr>
          \<and> \<not> isLoading (fst (snd (loadRoomData env s w)))
          \<and> toasts (snd (snd (loadRoomData env s w))) = toasts w
          \<and> timeouts (snd (snd (loadRoomData env s w))) = timeouts w
          \<and> participants (fst (snd (loadRoomData env s w))) = ?P"
    if "postJsonWithAuth env ?j = Inl err" for err
  proof -
    obtain ps where l: "fst (loadParticipantsInfo env ?s ?w2) = ?s\<lparr>participants := ps\<rparr>"
      using loadParticipantsInfo_frame by blast
    show ?thesis
      using l by (simp add: J(2) [OF that] loadParticipantsInfo_world fetchedState_simps)
  qed
  have b: "ms \<noteq> [] \<and> getUserDisplayInfos env (dedup [] (filter truthy ms)) = Inr m
               \<and> (\<forall>u\<in>set ms. truthy u \<longrightarrow> typeof u = ''string'') \<longrightarrow>
             map id_participant ?P = dedup [] (filter truthy ms)
           \<and> JStr (uid cu) \<notin> set (map id_participant ?P)
           \<and> (\<forall>p\<in>set ?P. isHost p = strictEq (js_prop data ''creator'') (id_participant p))"
    using b0 by blast
  have c: "ms \<noteq> [] \<and> getUserDisplayInfos env (dedup [] (filter truthy ms)) = Inl e \<longrightarrow> ?P = []"
    using c0 by blast
  have d: "ms = [] \<and> getUserDisplayInfo env (JStr (uid cu)) = Inr info \<and> \<not> nullish info \<longrightarrow>
             ?P = [\<lparr>id_participant = JStr (uid cu), name = js_prop info ''displayName'',
                    avatar = js_prop info ''avatar'',
                    photo = or_js (photoURL cu) (or_js (photo_user cu) JNull),
                    status_participant = ''online'',
                    isHost = (js_prop data ''creator'' = JStr (uid cu)), inCall = False\<rparr>]"
    using d0 by blast
  show ?thesis
  proof (rule conjI [OF J(1)], rule impI)
    assume "\<exists>err. postJsonWithAuth env ?j = Inl err"
    then obtain err where "postJsonWithAuth env ?j = Inl err" ..
    from fail [OF this] have f: "fst (loadRoomData env s w) = Inr \<lparr>fetched = data, participants_set = None\<rparr>"
      "currentRoomData (fst (snd (loadRoomData env s w))) = \<lparr>fetched = data, participants_set = None\<rparr>"
      "\<not> isLoading (fst (snd (loadRoomData env s w)))"
      "toasts (snd (snd (loadRoomData env s w))) = toasts w"
      "timeouts (snd (snd (loadRoomData env s w))) = timeouts w"
      and pl: "participants (fst (snd (loadRoomData env s w))) = ?P"
      by blast+
    show "fst (loadRoomData env s w) = Inr \<lparr>fetched = data, participants_set = None\<rparr>
          \<and> currentRoomData (fst (snd (loadRoomData env s w))) = \<lparr>fetched = data, participants_set = None\<rparr>
          \<and> \<not> isLoading (fst (snd (loadRoomData env s w)))
          \<and> toasts (snd (snd (loadRoomData env s w))) = toasts w
          \<and> timeouts (snd (snd (loadRoomData env s w))) = timeouts w
          \<and> (ms \<noteq> [] \<and> getUserDisplayInfos env (dedup [] (filter truthy ms)) = Inr m
               \<and> (\<forall>u\<in>set ms. truthy u \<longrightarrow> typeof u = ''string'') \<longrightarrow>
                map id_participant (participants (fst (snd (loadRoomData env s w)))) =
                  dedup [] (filter truthy ms)
              \<and> JStr (uid cu) \<notin> set (map id_participant (participants (fst (snd (loadRoomData env s w)))))
              \<and> (\<forall>p\<in>set (participants (fst (snd (loadRoomData env s w)))).
                    isHost p = strictEq (js_prop data ''creator'') (id_participant p)))
          \<and> (ms \<noteq> [] \<and> getUserDisplayInfos env (dedup [] (filter truthy ms)) = Inl e \<longrightarrow>
                participants (fst (snd (loadRoomData env s w))) = [])
          \<and> (ms = [] \<and> getUserDisplayInfo env (JStr (uid cu)) = Inr info \<and> \<not> nullish info \<longrightarrow>
                participants (fst (snd (loadRoomData env s w))) =
                  [\<lparr>id_participant = JStr (uid cu), name = js_prop info ''displayName'',
                    avatar = js_prop info ''avatar'',
                    photo = or_js (photoURL cu) (or_js (photo_user cu) JNull),
                    status_participant = ''online'',
                    isHost = (js_prop data ''creator'' = JStr (uid cu)), inCall = False\<rparr>])"
      unfolding pl
      by (intro conjI f b c d)
  qed
qed

lemma loadRoomData_failure_effects:
  assumes "fst (loadRoomData env s w) = Inl err"
  shows "\<not> isLoading (fst (snd (loadRoomData env s w)))
       \<and> toasts (snd (snd (loadRoomData env s w))) =
           toasts w @ (if showToast env then [(''Failed to load room: '' @ message err, ''error'')] else [])
       \<and> timeouts (snd (snd (loadRoomData env s w))) = timeouts w @ [(2000, ''study-rooms.html'')]"
proof -
  obtain res s1 w1 where t: "loadRoomData_try env (s\<lparr>isLoading := True\<rparr>) w = (res, s1, w1)"
    by (cases "loadRoomData_try env (s\<lparr>isLoading := True\<rparr>) w") auto
  with assms have res: "res = Inl err"
    by (cases res) (simp_all add: loadRoomData_def)
  from loadRoomData_try_failure [OF t [unfolded res]]
  show ?thesis
    using t res by (simp add: loadRoomData_def Let_def)
qed

lemma loadRoomData_missing_id:
  assumes "locationRoom env = None \<or> locationRoom env = Some []"
  shows "fst (loadRoomData env s w) = Inl (Error ''Room ID not found in URL'')"
    and "requests (snd (snd (loadRoomData env s w))) = requests w"
  using assms by (auto simp: loadRoomData_def loadRoomData_try_def Let_def)

lemma loadRoomData_fetch_failed:
  assumes "locationRoom env = Some roomId" "roomId \<noteq> []"
    and "getp (window_CONFIG env) ''apiBase'' = Inr base"
    and "fetchJsonWithAuth env (roomRequest base (JStr roomId)) = Inl e"
  shows "fst (loadRoomData env s w) = Inl e"
  using assms by (simp add: loadRoomData_def loadRoomData_try_def Let_def)

lemma loadRoomData_fetch_empty:
  assumes "locationRoom env = Some roomId" "roomId \<noteq> []"
    and "getp (window_CONFIG env) ''apiBase'' = Inr base"
    and "fetchJsonWithAuth env (roomRequest base (JStr roomId)) = Inr data" "\<not> truthy data"
  shows "fst (loadRoomData env s w) = Inl (Error ''No room data returned'')"
  using assms by (simp add: loadRoomData_def loadRoomData_try_def Let_def)

text \<open>
  Claim C8, as amended. Whenever \<open>loadRoomData\<close> fails with an error, the loading flag is
  false afterwards, a redirect to \<open>study-rooms.html\<close> is scheduled 2000 ms later, and the
  error toast \<open>Failed to load room: ...\<close> is shown if \<open>window.showToast\<close> is a function
  (no notification otherwise). It fails with \<open>Room ID not found in URL\<close> when the address
  has no room id, with the error of the fetch when the fetch fails, and with
  \<open>No room data returned\<close> when the fetch returns a falsy body; the error raised is the
  one that was caught.
\<close>

theorem loadRoomData_failure:
  "(fst (loadRoomData env s w) = Inl err \<longrightarrow>
       \<not> isLoading (fst (snd (loadRoomData env s w)))
     \<and> toasts (snd (snd (loadRoomData env s w))) =
         toasts w @ (if showToast env then [(''Failed to load room: '' @ message err, ''error'')] else [])
     \<and> timeouts (snd (snd (loadRoomData env s w))) = timeouts w @ [(2000, ''study-rooms.html'')])
   \<and> (locationRoom env = None \<or> locationRoom env = Some [] \<longrightarrow>
         fst (loadRoomData env s w) = Inl (Error ''Room ID not found in URL''))
   \<and> (locationRoom env = Some roomId \<and> roomId \<noteq> [] \<and>
       getp (window_CONFIG env) ''apiBase'' = Inr base \<and>
       fetchJsonWithAuth env (roomRequest base (JStr roomId)) = Inl e \<longrightarrow>
         fst (loadRoomData env s w) = Inl e)
   \<and> (locationRoom env = Some roomId \<and> roomId \<noteq> [] \<and>
       getp (window_CONFIG env) ''apiBase'' = Inr base \<and>
       fetchJsonWithAuth env (roomRequest base (JStr roomId)) = Inr data \<and> \<not> truthy data \<longrightarrow>
         fst (loadRoomData env s w) = Inl (Error ''No room data returned''))"
  using loadRoomData_failure_effects [of env s w err] loadRoomData_missing_id(1) [of env s w]
    loadRoomData_fetch_failed [of env roomId base e s w]
    loadRoomData_fetch_empty [of env roomId base data s w]
  by blast

theorem loadRoomData_no_toast_counterexample:
  "fst (loadRoomData (exampleEnv\<lparr>locationRoom := None, showToast := False\<rparr>)
         (RoomManager (Some (exampleUser ''u1''))) emptyWorld) = Inl (Error ''Room ID not found in URL'')
   \<and> toasts (snd (snd (loadRoomData (exampleEnv\<lparr>locationRoom := None, showToast := False\<rparr>)
         (RoomManager (Some (exampleUser ''u1''))) emptyWorld))) = []"
  by (simp add: loadRoomData_def loadRoomData_try_def exampleEnv_def emptyWorld_def RoomManager_def)

text \<open>
  Claim C4, as amended. For every participant id, \<open>kickParticipant\<close> called while the
  ownership flag is false issues no request, opens no confirmation prompt and leaves the
  manager unchanged; it returns normally (nothing is raised), and the refusal is reported
  only by the error toast \<open>Only the room owner can remove participants.\<close>, shown when
  \<open>window.showToast\<close> is available.
\<close>

theorem kickParticipant_not_owner:
  "\<not> isOwner s \<Longrightarrow>
     kickParticipant env s user_id w =
       (Inr (), s,
        if showToast env
        then w\<lparr>toasts := toasts w @ [(''Only the room owner can remove participants.'', ''error'')]\<rparr>
        else w)
     \<and> requests (snd (snd (kickParticipant env s user_id w))) = requests w
     \<and> confirms (snd (snd (kickParticipant env s user_id w))) = confirms w"
  by (simp add: kickParticipant_def toast_def)

theorem kickParticipant_not_rejected_counterexample:
  "\<not> isOwner (RoomManager (Some (exampleUser ''u3'')))
   \<and> kickParticipant exampleEnv (RoomManager (Some (exampleUser ''u3''))) (JStr ''u2'') emptyWorld =
       (Inr (), RoomManager (Some (exampleUser ''u3'')),
        emptyWorld\<lparr>toasts := [(''Only the room owner can remove participants.'', ''error'')]\<rparr>)
   \<and> kickParticipant (exampleEnv\<lparr>showToast := False\<rparr>) (RoomManager (Some (exampleUser ''u3'')))
         (JStr ''u2'') emptyWorld =
       (Inr (), RoomManager (Some (exampleUser ''u3'')), emptyWorld)"
  by (simp add: kickParticipant_def toast_def RoomManager_def exampleEnv_def emptyWorld_def)

lemma loadParticipantsInfo_parts:
  assumes "\<And>cu. currentUser s = Some cu \<Longrightarrow>
             isOwner s = (room_prop (currentRoomData s) ''creator'' = JStr (uid cu))"
  shows "distinct (filter isPrimitive (map id_participant (participants (fst (loadParticipantsInfo env s w)))))"
    and "\<forall>p\<in>set (participants (fst (loadParticipantsInfo env s w))).
           isHost p = strictEq (room_prop (currentRoomData s) ''creator'') (id_participant p)"
proof -
  let ?z = "s\<lparr>participants := []\<rparr>"
  let ?m = "room_getp_opt (currentRoomData ?z) ''participants''"
  let ?P = "\<lambda>ps. distinct (filter isPrimitive (map id_participant ps)) \<and>
        (\<forall>p\<in>set ps. isHost p = strictEq (room_prop (currentRoomData s) ''creator'') (id_participant p))"
  have self: "?P (participants (fst (loadSelfOnly env ?z w)))"
    using loadSelfOnly_parts [of env ?z w] assms
    by (auto simp: strictEq_JStr)
  have "?P (participants (fst (loadAll env ?z w ms)))" for ms
  proof -
    from loadAll_parts [of env ?z w ms] show ?thesis
    proof
      assume "participants (fst (loadAll env ?z w ms)) = participants ?z"
      then show ?thesis by simp
    next
      assume a: "map id_participant (participants (fst (loadAll env ?z w ms))) = dedup [] (filter truthy ms)
        \<and> (\<forall>p\<in>set (participants (fst (loadAll env ?z w ms))).
              isHost p = strictEq (room_prop (currentRoomData ?z) ''creator'') (id_participant p))"
      then have "distinct (filter isPrimitive (map id_participant (participants (fst (loadAll env ?z w ms)))))"
        by (simp add: dedup_distinct)
      with a show ?thesis by simp
    qed
  qed
  with self have "?P (participants (fst (loadParticipantsInfo env s w)))"
    by (simp add: loadParticipantsInfo_def Let_def)
  then show "distinct (filter isPrimitive (map id_participant (participants (fst (loadParticipantsInfo env s w)))))"
    and "\<forall>p\<in>set (participants (fst (loadParticipantsInfo env s w))).
           isHost p = strictEq (room_prop (currentRoomData s) ''creator'') (id_participant p)"
    by blast+
qed

lemma room_prop_creator: "room_prop r ''creator'' = js_prop (fetched r) ''creator''"
  by (simp add: room_prop_def)

lemma loadRoomData_participants_general:
  assumes "loadRoomData env s w = (Inr room, s', w')"
  shows "distinct (filter isPrimitive (map id_participant (participants s')))"
    and "\<forall>p\<in>set (participants s').
           isHost p = strictEq (js_prop (fetched room) ''creator'') (id_participant p)"
proof -
  from assms have "fst (loadRoomData env s w) = Inr room" by simp
  from loadRoomData_success [OF this] obtain roomId base data cu where
    h: "locationRoom env = Some roomId" "roomId \<noteq> []"
       "getp (window_CONFIG env) ''apiBase'' = Inr base"
       "fetchJsonWithAuth env (roomRequest base (JStr roomId)) = Inr data" "truthy data"
       "currentUser s = Some cu"
    by blast
  let ?j = "autoJoinRoom env (fetchedState s cu data)
              (w\<lparr>requests := requests w @ [roomRequest base (JStr roomId)]\<rparr>)"
  let ?l = "loadParticipantsInfo env (fst ?j) (snd ?j)"
  from loadRoomData_fetched [OF h, of w] assms
  have r: "room = currentRoomData (fst ?l)" and s': "s' = (fst ?l)\<lparr>isLoading := False\<rparr>"
    by (simp_all add: Let_def)
  obtain ps where l: "fst ?l = (fst ?j)\<lparr>participants := ps\<rparr>"
    using loadParticipantsInfo_frame by blast
  have fr: "fetched room = fetched (currentRoomData (fst ?j))"
    by (simp add: r l)
  have own: "isOwner (fst ?j) = (room_prop (currentRoomData (fst ?j)) ''creator'' = JStr (uid c))"
    if "currentUser (fst ?j) = Some c" for c
    using that h(6)
    by (simp add: autoJoinRoom_keeps fetchedState_simps room_prop_creator)
  from loadParticipantsInfo_parts [of "fst ?j" env "snd ?j", OF own]
  show "distinct (filter isPrimitive (map id_participant (participants s')))"
    and "\<forall>p\<in>set (participants s').
           isHost p = strictEq (js_prop (fetched room) ''creator'') (id_participant p)"
    by (simp_all add: s' fr room_prop_creator)
qed

lemma loadRoomData_example:
  assumes "locationRoom env = Some roomId" "roomId \<noteq> []"
    and "getp (window_CONFIG env) ''apiBase'' = Inr base"
    and "fetchJsonWithAuth env (roomRequest base (JStr roomId)) = Inr data"
    and "js_prop data ''participants'' = JArr [JStr ''u1'', JStr ''u2'']"
    and "js_prop data ''creator'' = JStr ''u1''"
    and "currentUser s = Some cu" "uid cu = ''u1''"
    and "getUserDisplayInfos env [JStr ''u1'', JStr ''u2''] = Inr m"
  shows "\<exists>p1 p2. fst (loadRoomData env s w) = Inr \<lparr>fetched = data, participants_set = None\<rparr>
           \<and> isOwner (fst (snd (loadRoomData env s w)))
           \<and> participants (fst (snd (loadRoomData env s w))) = [p1, p2]
           \<and> id_participant p1 = JStr ''u1'' \<and> isHost p1
           \<and> id_participant p2 = JStr ''u2'' \<and> \<not> isHost p2"
proof -
  from assms(5) have obj: "isObject data" by (cases data) simp_all
  then have t: "truthy data" by (cases data) simp_all
  let ?s = "fetchedState s cu data"
  let ?w = "w\<lparr>requests := requests w @ [roomRequest base (JStr roomId)]\<rparr>"
  let ?z = "?s\<lparr>participants := []\<rparr>"
  have "js_includes (or_js (room_getp_opt (currentRoomData ?s) ''participants'') (JArr [])) (currentUid ?s) = Inr True"
    using assms(5,7,8) t
    by (simp add: fetchedState_simps members_fetched truthy_not_nullish or_js_def js_includes_def
        currentUid_def uidValue_def strictEq_def)
  then have j: "autoJoinRoom env ?s ?w = (?s, ?w)" by (rule autoJoinRoom_skip)
  have uids: "dedup [] (filter truthy [JStr ''u1'', JStr ''u2'']) = [JStr ''u1'', JStr ''u2'']"
    by (simp add: strictEq_def)
  obtain ps where ps: "promiseAll (map (buildParticipant env ?z m) [JStr ''u1'', JStr ''u2'']) = Inr ps"
    using promiseAll_total [of "[JStr ''u1'', JStr ''u2'']" "buildParticipant env ?z m"]
      buildParticipant_string [of env ?z m]
    by auto
  from promiseAll_map [OF ps] obtain p1 p2 where
    p: "ps = [p1, p2]" "buildParticipant env ?z m (JStr ''u1'') = Inr p1"
       "buildParticipant env ?z m (JStr ''u2'') = Inr p2"
    by (auto simp: list_all2_Cons1)
  have c: "room_prop (currentRoomData ?z) ''creator'' = JStr ''u1''"
    using assms(6) by (simp add: fetchedState_simps room_prop_fetched)
  from buildParticipant_id [OF p(2)] buildParticipant_id [OF p(3)] c
  have ids: "id_participant p1 = JStr ''u1''" "isHost p1" "id_participant p2 = JStr ''u2''" "\<not> isHost p2"
    by (simp_all add: strictEq_def)
  have l: "fst (loadParticipantsInfo env ?s ?w) = ?s\<lparr>participants := [p1, p2]\<rparr>"
    using assms(5,9) t uids ps p(1)
    by (simp add: loadParticipantsInfo_def loadAll_def Let_def fetchedState_simps members_fetched
        truthy_not_nullish setParticipants_fst)
  have "fst (loadRoomData env s w) = Inr \<lparr>fetched = data, participants_set = None\<rparr>
           \<and> isOwner (fst (snd (loadRoomData env s w)))
           \<and> participants (fst (snd (loadRoomData env s w))) = [p1, p2]"
    using loadRoomData_fetched [OF assms(1-4) t assms(7), of w] j l assms(6,8)
    by (simp add: Let_def fetchedState_simps)
  with ids show ?thesis by blast
qed

lemma loadRoomData_example_rejected:
  assumes "locationRoom env = Some roomId" "roomId \<noteq> []"
    and "getp (window_CONFIG env) ''apiBase'' = Inr base"
    and "fetchJsonWithAuth env (roomRequest base (JStr roomId)) = Inr data"
    and "js_prop data ''participants'' = JArr [JStr ''u1'', JStr ''u2'']"
    and "js_prop data ''creator'' = JStr ''u1''"
    and "currentUser s = Some cu" "uid cu = ''u1''"
    and "getUserDisplayInfos env [JStr ''u1'', JStr ''u2''] = Inl e"
  shows "fst (loadRoomData env s w) = Inr \<lparr>fetched = data, participants_set = None\<rparr>
           \<and> isOwner (fst (snd (loadRoomData env s w)))
           \<and> participants (fst (snd (loadRoomData env s w))) = []"
proof -
  from assms(5) have obj: "isObject data" by (cases data) simp_all
  then have t: "truthy data" by (cases data) simp_all
  let ?s = "fetchedState s cu data"
  let ?w = "w\<lparr>requests := requests w @ [roomRequest base (JStr roomId)]\<rparr>"
  have "js_includes (or_js (room_getp_opt (currentRoomData ?s) ''participants'') (JArr [])) (currentUid ?s) = Inr True"
    using assms(5,7,8) t
    by (simp add: fetchedState_simps members_fetched truthy_not_nullish or_js_def js_includes_def
        currentUid_def uidValue_def strictEq_def)
  then have j: "autoJoinRoom env ?s ?w = (?s, ?w)" by (rule autoJoinRoom_skip)
  have uids: "dedup [] (filter truthy [JStr ''u1'', JStr ''u2'']) = [JStr ''u1'', JStr ''u2'']"
    by (simp add: strictEq_def)
  have l: "fst (loadParticipantsInfo env ?s ?w) = ?s\<lparr>participants := []\<rparr>"
    using assms(5,9) t uids
    by (simp add: loadParticipantsInfo_def loadAll_def Let_def fetchedState_simps members_fetched
        truthy_not_nullish)
  show ?thesis
    using loadRoomData_fetched [OF assms(1-4) t assms(7), of w] j l assms(6,8)
    by (simp add: Let_def fetchedState_simps)
qed

text \<open>
  Claim C9, as amended. After a successful \<open>loadRoomData\<close> no primitive user id occurs twice among the
  participant records (the list goes through \<open>new Set\<close>, which compares as \<open>===\<close> does, so
  the de-duplication concerns the primitive ids: strings, numbers and booleans), and each
  record has \<open>isHost\<close> true exactly when the creator of the fetched room \<open>===\<close> its id. For
  a room with participants \<open>["u1","u2"]\<close> and creator \<open>"u1"\<close>, the current user being
  \<open>"u1"\<close>, the load succeeds with the ownership flag true; when the batch lookup
  \<open>getUserDisplayInfos\<close> resolves there are two records, \<open>u1\<close> with \<open>isHost\<close> true and
  \<open>u2\<close> with \<open>isHost\<close> false; when it rejects, the load succeeds all the same and the
  participant list is empty.
\<close>

theorem loadRoomData_participants:
  "(loadRoomData env s w = (Inr room, s', w') \<longrightarrow>
       distinct (filter isPrimitive (map id_participant (participants s')))
     \<and> (\<forall>p\<in>set (participants s').
           isHost p \<longleftrightarrow> strictEq (js_prop (fetched room) ''creator'') (id_participant p)))
   \<and> (locationRoom env = Some roomId \<and> roomId \<noteq> [] \<and>
       getp (window_CONFIG env) ''apiBase'' = Inr base \<and>
       fetchJsonWithAuth env (roomRequest base (JStr roomId)) = Inr data \<and>
       js_prop data ''participants'' = JArr [JStr ''u1'', JStr ''u2''] \<and>
       js_prop data ''creator'' = JStr ''u1'' \<and>
       currentUser s = Some cu \<and> uid cu = ''u1'' \<longrightarrow>
       (getUserDisplayInfos env [JStr ''u1'', JStr ''u2''] = Inr m \<longrightarrow>
          (\<exists>p1 p2. fst (loadRoomData env s w) = Inr \<lparr>fetched = data, participants_set = None\<rparr>
             \<and> isOwner (fst (snd (loadRoomData env s w)))
             \<and> participants (fst (snd (loadRoomData env s w))) = [p1, p2]
             \<and> id_participant p1 = JStr ''u1'' \<and> isHost p1
             \<and> id_participant p2 = JStr ''u2'' \<and> \<not> isHost p2))
     \<and> (getUserDisplayInfos env [JStr ''u1'', JStr ''u2''] = Inl e \<longrightarrow>
            fst (loadRoomData env s w) = Inr \<lparr>fetched = data, participants_set = None\<rparr>
          \<and> isOwner (fst (snd (loadRoomData env s w)))
          \<and> participants (fst (snd (loadRoomData env s w))) = []))"
  using loadRoomData_participants_general [of env s w room s' w']
    loadRoomData_example [of env roomId base data s cu m w]
    loadRoomData_example_rejected [of env roomId base data s cu e w]
  by blast

lemma exampleEnv_simps:
  "locationRoom exampleEnv = Some ''r1''"
  "getp (window_CONFIG exampleEnv) ''apiBase'' = Inr (JStr ''https://api.example/rooms'')"
  "fetchJsonWithAuth exampleEnv q = Inr exampleRoom"
  "postJsonWithAuth exampleEnv q = Inl (Exn ErrorK ''Forbidden'' (JNum (Fin 403)))"
  "showToast exampleEnv"
  by (simp_all add: exampleEnv_def getp_def)

lemma exampleRoom_simps:
  "truthy exampleRoom"
  "js_prop exampleRoom ''participants'' = JArr [JStr ''u1'', JStr ''u2'']"
  "js_prop exampleRoom ''creator'' = JStr ''u1''"
  "or_js (js_prop exampleRoom ''_id'') (js_prop exampleRoom ''id'') = JStr ''r1''"
  by (simp_all add: exampleRoom_def or_js_def)

lemma exampleUser_simps:
  "currentUser (RoomManager (Some (exampleUser u))) = Some (exampleUser u)"
  "uid (exampleUser u) = u"
  "isOwner (RoomManager x) = False"
  by (simp_all add: RoomManager_def exampleUser_def)

lemma offlineEnv_simps:
  "locationRoom (exampleEnv\<lparr>getUserDisplayInfos := f\<rparr>) = Some ''r1''"
  "getp (window_CONFIG (exampleEnv\<lparr>getUserDisplayInfos := f\<rparr>)) ''apiBase'' =
     Inr (JStr ''https://api.example/rooms'')"
  "fetchJsonWithAuth (exampleEnv\<lparr>getUserDisplayInfos := f\<rparr>) q = Inr exampleRoom"
  "getUserDisplayInfos (exampleEnv\<lparr>getUserDisplayInfos := f\<rparr>) = f"
  by (simp_all add: exampleEnv_def getp_def)

lemma map_two:
  assumes "map f ps = [a, b]"
  shows "\<exists>p1 p2. ps = [p1, p2] \<and> f p1 = a \<and> f p2 = b"
  using assms by (auto simp: map_eq_Cons_conv)

text \<open>
  The example on a page whose batch lookup is out of reach: the load of \<open>u1\<close>, creator of
  the room, succeeds with no participant record at all.
\<close>

theorem loadRoomData_batch_rejected_counterexample:
  "js_prop exampleRoom ''participants'' = JArr [JStr ''u1'', JStr ''u2'']
   \<and> js_prop exampleRoom ''creator'' = JStr ''u1''
   \<and> fst (loadRoomData (exampleEnv\<lparr>getUserDisplayInfos := (\<lambda>us. Inl (Error ''offline''))\<rparr>)
            (RoomManager (Some (exampleUser ''u1''))) emptyWorld) =
        Inr \<lparr>fetched = exampleRoom, participants_set = None\<rparr>
   \<and> participants (fst (snd
        (loadRoomData (exampleEnv\<lparr>getUserDisplayInfos := (\<lambda>us. Inl (Error ''offline''))\<rparr>)
            (RoomManager (Some (exampleUser ''u1''))) emptyWorld))) = []"
  using loadRoomData_example_rejected [of "exampleEnv\<lparr>getUserDisplayInfos := (\<lambda>us. Inl (Error ''offline''))\<rparr>"
      "''r1''" "JStr ''https://api.example/rooms''" exampleRoom
      "RoomManager (Some (exampleUser ''u1''))" "exampleUser ''u1''" "Error ''offline''" emptyWorld]
  by (simp add: offlineEnv_simps exampleEnv_simps exampleRoom_simps exampleUser_simps)

theorem loadRoomData_member_no_join_witness:
  "locationRoom exampleEnv = Some ''r1''
   \<and> fetchJsonWithAuth exampleEnv (roomRequest (JStr ''https://api.example/rooms'') (JStr ''r1'')) = Inr exampleRoom
   \<and> js_prop exampleRoom ''participants'' = JArr [JStr ''u1'', JStr ''u2'']
   \<and> JStr ''u1'' \<in> set [JStr ''u1'', JStr ''u2'']
   \<and> requests (snd (snd (loadRoomData exampleEnv (RoomManager (Some (exampleUser ''u1''))) emptyWorld))) =
        [roomRequest (JStr ''https://api.example/rooms'') (JStr ''r1'')]"
  using loadRoomData_member_no_join [of exampleEnv "''r1''" "JStr ''https://api.example/rooms''" exampleRoom
      "RoomManager (Some (exampleUser ''u1''))" "exampleUser ''u1''" "[JStr ''u1'', JStr ''u2'']" emptyWorld]
  by (simp add: exampleEnv_simps exampleRoom_simps exampleUser_simps emptyWorld_def)

theorem loadRoomData_joins_once_witness:
  "locationRoom exampleEnv = Some ''r1''
   \<and> fetchJsonWithAuth exampleEnv (roomRequest (JStr ''https://api.example/rooms'') (JStr ''r1'')) = Inr exampleRoom
   \<and> or_js (js_prop exampleRoom ''participants'') (JArr []) = JArr [JStr ''u1'', JStr ''u2'']
   \<and> JStr ''u3'' \<notin> set [JStr ''u1'', JStr ''u2'']
   \<and> postJsonWithAuth exampleEnv (joinRequest (JStr ''https://api.example/rooms'') (JStr ''r1'')) =
        Inl (Exn ErrorK ''Forbidden'' (JNum (Fin 403)))
   \<and> requests (snd (snd (loadRoomData exampleEnv (RoomManager (Some (exampleUser ''u3''))) emptyWorld))) =
        [roomRequest (JStr ''https://api.example/rooms'') (JStr ''r1''),
         joinRequest (JStr ''https://api.example/rooms'') (JStr ''r1'')]
   \<and> fst (loadRoomData exampleEnv (RoomManager (Some (exampleUser ''u3''))) emptyWorld) =
        Inr \<lparr>fetched = exampleRoom, participants_set = None\<rparr>
   \<and> \<not> isLoading (fst (snd (loadRoomData exampleEnv (RoomManager (Some (exampleUser ''u3''))) emptyWorld)))
   \<and> toasts (snd (snd (loadRoomData exampleEnv (RoomManager (Some (exampleUser ''u3''))) emptyWorld))) = []
   \<and> timeouts (snd (snd (loadRoomData exampleEnv (RoomManager (Some (exampleUser ''u3''))) emptyWorld))) = []
   \<and> map id_participant
        (participants (fst (snd (loadRoomData exampleEnv (RoomManager (Some (exampleUser ''u3''))) emptyWorld)))) =
        [JStr ''u1'', JStr ''u2'']
   \<and> map isHost
        (participants (fst (snd (loadRoomData exampleEnv (RoomManager (Some (exampleUser ''u3''))) emptyWorld)))) =
        [True, False]"
proof -
  let ?s = "RoomManager (Some (exampleUser ''u3''))"
  let ?L = "loadRoomData exampleEnv ?s emptyWorld"
  let ?m = "\<lambda>u. if u = JStr ''u1''
                  then JObj [(''displayName'', JStr ''Ana''), (''avatar'', JStr ''A'')]
                  else JUndefined"
  have m: "or_js (js_prop exampleRoom ''participants'') (JArr []) = JArr [JStr ''u1'', JStr ''u2'']"
    by (simp add: exampleRoom_simps or_js_def)
  have n: "JStr (uid (exampleUser ''u3'')) \<notin> set [JStr ''u1'', JStr ''u2'']"
    by (simp add: exampleUser_simps)
  have uids: "dedup [] (filter truthy [JStr ''u1'', JStr ''u2'']) = [JStr ''u1'', JStr ''u2'']"
    by (simp add: strictEq_def)
  have b: "getUserDisplayInfos exampleEnv [JStr ''u1'', JStr ''u2''] = Inr ?m"
    by (simp add: exampleEnv_def)
  have cv: "convertible (or_js (js_prop exampleRoom ''_id'') (js_prop exampleRoom ''id''))"
    by (simp add: exampleRoom_simps)
  have pj: "\<exists>err. postJsonWithAuth exampleEnv (joinRequest (JStr ''https://api.example/rooms'')
              (or_js (js_prop exampleRoom ''_id'') (js_prop exampleRoom ''id''))) = Inl err"
    by (simp add: exampleEnv_simps)
  have pre: "[JStr ''u1'', JStr ''u2''] \<noteq> []
      \<and> getUserDisplayInfos exampleEnv (dedup [] (filter truthy [JStr ''u1'', JStr ''u2''])) = Inr ?m
      \<and> (\<forall>u\<in>set [JStr ''u1'', JStr ''u2'']. truthy u \<longrightarrow> typeof u = ''string'')"
    unfolding uids using b by simp
  note T = loadRoomData_joins_once [where env = exampleEnv and roomId = "''r1''"
      and base = "JStr ''https://api.example/rooms''" and data = exampleRoom
      and s = ?s and cu = "exampleUser ''u3''" and ms = "[JStr ''u1'', JStr ''u2'']" and w = emptyWorld
      and m = ?m and e = "Error ''offline''" and info = JNull,
      OF exampleEnv_simps(1) _ exampleEnv_simps(2) exampleEnv_simps(3) exampleRoom_simps(1)
         exampleUser_simps(1) m n cv]
  have ne: "''r1'' \<noteq> []" by simp
  from T [OF ne] have r: "requests (snd (snd ?L)) =
        [roomRequest (JStr ''https://api.example/rooms'') (JStr ''r1''),
         joinRequest (JStr ''https://api.example/rooms'') (JStr ''r1'')]"
    by (simp add: exampleRoom_simps emptyWorld_def)
  from T [OF ne] pj pre have
    f0: "fst ?L = Inr \<lparr>fetched = exampleRoom, participants_set = None\<rparr>"
        "\<not> isLoading (fst (snd ?L))"
        "toasts (snd (snd ?L)) = toasts emptyWorld" "timeouts (snd (snd ?L)) = timeouts emptyWorld"
    and ids0: "map id_participant (participants (fst (snd ?L))) =
                 dedup [] (filter truthy [JStr ''u1'', JStr ''u2''])"
    and hosts0: "\<forall>p\<in>set (participants (fst (snd ?L))).
                  isHost p = strictEq (js_prop exampleRoom ''creator'') (id_participant p)"
    by blast+
  from f0 have f: "fst ?L = Inr \<lparr>fetched = exampleRoom, participants_set = None\<rparr>"
      "\<not> isLoading (fst (snd ?L))" "toasts (snd (snd ?L)) = []" "timeouts (snd (snd ?L)) = []"
    by (simp_all add: emptyWorld_def)
  from ids0 have ids: "map id_participant (participants (fst (snd ?L))) = [JStr ''u1'', JStr ''u2'']"
    unfolding uids .
  from hosts0 have hosts: "\<forall>p\<in>set (participants (fst (snd ?L))).
                  isHost p = strictEq (JStr ''u1'') (id_participant p)"
    unfolding exampleRoom_simps(3) .
  from map_two [OF ids] obtain p1 p2 where
    p: "participants (fst (snd ?L)) = [p1, p2]" "id_participant p1 = JStr ''u1''"
       "id_participant p2 = JStr ''u2''"
    by blast
  from hosts p have h: "map isHost (participants (fst (snd ?L))) = [True, False]"
    by (simp add: strictEq_def)
  from r f ids h m show ?thesis
    by (simp add: exampleEnv_simps exampleUser_simps)
qed

theorem loadRoomData_failure_witness:
  "fst (loadRoomData (exampleEnv\<lparr>locationRoom := None\<rparr>) (RoomManager None) emptyWorld) =
      Inl (Error ''Room ID not found in URL'')
   \<and> \<not> isLoading (fst (snd (loadRoomData (exampleEnv\<lparr>locationRoom := None\<rparr>) (RoomManager None) emptyWorld)))
   \<and> toasts (snd (snd (loadRoomData (exampleEnv\<lparr>locationRoom := None\<rparr>) (RoomManager None) emptyWorld))) =
        [(''Failed to load room: Room ID not found in URL'', ''error'')]
   \<and> timeouts (snd (snd (loadRoomData (exampleEnv\<lparr>locationRoom := None\<rparr>) (RoomManager None) emptyWorld))) =
        [(2000, ''study-rooms.html'')]"
proof -
  let ?env = "exampleEnv\<lparr>locationRoom := None\<rparr>"
  note T = loadRoomData_failure [of ?env "RoomManager None" emptyWorld "Error ''Room ID not found in URL''"]
  have l: "locationRoom ?env = None" by simp
  from T l have 1: "fst (loadRoomData ?env (RoomManager None) emptyWorld) = Inl (Error ''Room ID not found in URL'')"
    by blast
  from T 1 have "\<not> isLoading (fst (snd (loadRoomData ?env (RoomManager None) emptyWorld)))
     \<and> toasts (snd (snd (loadRoomData ?env (RoomManager None) emptyWorld))) =
         toasts emptyWorld @ (if showToast ?env
            then [(''Failed to load room: '' @ message (Error ''Room ID not found in URL''), ''error'')] else [])
     \<and> timeouts (snd (snd (loadRoomData ?env (RoomManager None) emptyWorld))) =
         timeouts emptyWorld @ [(2000, ''study-rooms.html'')]"
    by blast
  with 1 show ?thesis by (simp add: emptyWorld_def exampleEnv_def)
qed

theorem kickParticipant_not_owner_witness:
  "\<not> isOwner (RoomManager (Some (exampleUser ''u3'')))
   \<and> kickParticipant exampleEnv (RoomManager (Some (exampleUser ''u3''))) (JStr ''u2'') emptyWorld =
       (Inr (), RoomManager (Some (exampleUser ''u3'')),
        emptyWorld\<lparr>toasts := toasts emptyWorld @ [(''Only the room owner can remove participants.'', ''error'')]\<rparr>)
   \<and> requests (snd (snd (kickParticipant exampleEnv (RoomManager (Some (exampleUser ''u3''))) (JStr ''u2'') emptyWorld))) = []"
  using kickParticipant_not_owner [of "RoomManager (Some (exampleUser ''u3''))" exampleEnv "JStr ''u2''" emptyWorld]
  by (simp add: exampleUser_simps exampleEnv_simps emptyWorld_def)

theorem loadRoomData_participants_witness:
  "fst (loadRoomData exampleEnv (RoomManager (Some (exampleUser ''u1''))) emptyWorld) =
      Inr \<lparr>fetched = exampleRoom, participants_set = None\<rparr>
   \<and> isOwner (fst (snd (loadRoomData exampleEnv (RoomManager (Some (exampleUser ''u1''))) emptyWorld)))
   \<and> map id_participant (participants (fst (snd (loadRoomData exampleEnv (RoomManager (Some (exampleUser ''u1''))) emptyWorld))))
       = [JStr ''u1'', JStr ''u2'']
   \<and> map isHost (participants (fst (snd (loadRoomData exampleEnv (RoomManager (Some (exampleUser ''u1''))) emptyWorld))))
       = [True, False]
   \<and> distinct (filter isPrimitive (map id_participant
        (participants (fst (snd (loadRoomData exampleEnv (RoomManager (Some (exampleUser ''u1''))) emptyWorld))))))"
proof -
  let ?s = "RoomManager (Some (exampleUser ''u1''))"
  let ?L = "loadRoomData exampleEnv ?s emptyWorld"
  let ?m = "\<lambda>u. if u = JStr ''u1''
                  then JObj [(''displayName'', JStr ''Ana''), (''avatar'', JStr ''A'')]
                  else JUndefined"
  have m: "getUserDisplayInfos exampleEnv [JStr ''u1'', JStr ''u2''] = Inr ?m"
    by (simp add: exampleEnv_def)
  note T = loadRoomData_participants [of exampleEnv ?s emptyWorld "\<lparr>fetched = exampleRoom, participants_set = None\<rparr>"
      "fst (snd ?L)" "snd (snd ?L)" "''r1''" "JStr ''https://api.example/rooms''" exampleRoom
      "exampleUser ''u1''" ?m "Error ''offline''"]
  from T m obtain p1 p2 where
    e: "fst ?L = Inr \<lparr>fetched = exampleRoom, participants_set = None\<rparr>"
       "isOwner (fst (snd ?L))" "participants (fst (snd ?L)) = [p1, p2]"
       "id_participant p1 = JStr ''u1''" "isHost p1" "id_participant p2 = JStr ''u2''" "\<not> isHost p2"
    by (auto simp: exampleEnv_simps exampleRoom_simps exampleUser_simps)
  from e(1) have "?L = (Inr \<lparr>fetched = exampleRoom, participants_set = None\<rparr>, fst (snd ?L), snd (snd ?L))"
    by (metis prod.collapse)
  with T have "distinct (filter isPrimitive (map id_participant (participants (fst (snd ?L)))))"
    by blast
  with e show ?thesis by simp
qed

section \<open>Properties of the form validation\<close>

inductive_cases m_ZeroE: "matches Zero w"
inductive_cases m_OneE: "matches One w"
inductive_cases m_ClsE: "matches (Cls P) w"
inductive_cases m_AltE: "matches (Alt r s) w"
inductive_cases m_SeqE: "matches (Seq r s) w"

lemma nullable_matches: "nullable r \<longleftrightarrow> matches r []"
proof (induction r)
  case (Seq r s)
  then show ?case
    by (auto elim!: m_SeqE intro: m_Seq [of r "[]" s "[]", simplified])
qed (auto intro: matches.intros elim: m_ZeroE m_OneE m_ClsE m_AltE)

lemma star_cons:
  "matches (Star r) (c # w) \<Longrightarrow> \<exists>u v. w = u @ v \<and> matches r (c # u) \<and> matches (Star r) v"
proof (induction "Star r" "c # w" arbitrary: w rule: matches.induct)
  case (m_StarStep u v)
  show ?case
  proof (cases u)
    case Nil
    with m_StarStep show ?thesis by simp
  next
    case (Cons a u')
    with m_StarStep show ?thesis by auto
  qed
qed

lemma deriv_matches: "matches (deriv c r) w \<longleftrightarrow> matches r (c # w)"
proof (induction r arbitrary: w)
  case Zero
  show ?case by (auto elim: m_ZeroE)
next
  case One
  show ?case by (auto elim: m_ZeroE m_OneE)
next
  case (Cls P)
  show ?case by (auto elim: m_ZeroE m_OneE m_ClsE intro: matches.intros)
next
  case (Alt r s)
  then show ?case by (auto elim!: m_AltE intro: matches.intros)
next
  case (Seq r s)
  show ?case
  proof
    assume "matches (deriv c (Seq r s)) w"
    then consider (l) "matches (Seq (deriv c r) s) w" | (r) "nullable r" "matches (deriv c s) w"
      by (auto split: if_splits elim: m_AltE)
    then show "matches (Seq r s) (c # w)"
    proof cases
      case l
      then obtain u v where "w = u @ v" "matches (deriv c r) u" "matches s v"
        by (auto elim: m_SeqE)
      then show ?thesis using Seq.IH(1) m_Seq [of r "c # u" s v] by simp
    next
      case r
      then show ?thesis using Seq.IH(2) m_Seq [of r "[]" s "c # w"] by (simp add: nullable_matches)
    qed
  next
    assume "matches (Seq r s) (c # w)"
    then obtain u v where uv: "c # w = u @ v" "matches r u" "matches s v"
      by (auto elim: m_SeqE)
    show "matches (deriv c (Seq r s)) w"
    proof (cases u)
      case Nil
      with uv have "nullable r" "matches (deriv c s) w"
        by (simp_all add: nullable_matches Seq.IH(2))
      then show ?thesis by (simp add: m_AltR)
    next
      case (Cons a u')
      with uv have "a = c" "w = u' @ v" "matches r (c # u')"
        by simp_all
      then have "matches (Seq (deriv c r) s) w"
        using uv(3) Seq.IH(1) [of u'] by (auto intro: m_Seq)
      then show ?thesis by (simp add: m_AltL)
    qed
  qed
next
  case (Star r)
  show ?case
  proof
    assume "matches (deriv c (Star r)) w"
    then obtain u v where "w = u @ v" "matches (deriv c r) u" "matches (Star r) v"
      by (auto elim: m_SeqE)
    then show "matches (Star r) (c # w)"
      using Star.IH m_StarStep [of r "c # u" v] by simp
  next
    assume "matches (Star r) (c # w)"
    then obtain u v where "w = u @ v" "matches r (c # u)" "matches (Star r) v"
      using star_cons by blast
    then show "matches (deriv c (Star r)) w"
      using Star.IH by (auto intro: m_Seq)
  qed
qed

lemma regex_test_matches: "regex_test r w \<longleftrightarrow> matches r w"
  by (induction w arbitrary: r) (simp_all add: nullable_matches deriv_matches)

lemma star_cls: "matches (Star (Cls P)) w \<longleftrightarrow> list_all P w"
proof
  show "matches (Star (Cls P)) w \<Longrightarrow> list_all P w"
    by (induction "Star (Cls P)" w rule: matches.induct) (auto elim: m_ClsE)
next
  show "list_all P w \<Longrightarrow> matches (Star (Cls P)) w"
  proof (induction w)
    case Nil
    show ?case by (rule m_StarNil)
  next
    case (Cons a w)
    then show ?case using m_StarStep [of "Cls P" "[a]" w] by (simp add: m_Cls)
  qed
qed

lemma plus_cls: "matches (Plus (Cls P)) w \<longleftrightarrow> w \<noteq> [] \<and> list_all P w"
  unfolding Plus_def
  by (cases w) (auto elim!: m_SeqE m_ClsE simp: star_cls intro: m_Seq [of "Cls P" "[c]" for c, simplified] m_Cls)

lemma seq_iff: "matches (Seq r s) w \<longleftrightarrow> (\<exists>u v. w = u @ v \<and> matches r u \<and> matches s v)"
  by (blast elim: m_SeqE intro: m_Seq)

lemma cls_iff: "matches (Cls P) w \<longleftrightarrow> (\<exists>c. w = [c] \<and> P c)"
  by (auto elim: m_ClsE intro: m_Cls)

lemma emailRegex_iff:
  "regex_test emailRegex e \<longleftrightarrow>
     (\<exists>a b c. e = a @ ''@'' @ b @ ''.'' @ c \<and> a \<noteq> [] \<and> b \<noteq> [] \<and> c \<noteq> [] \<and>
        list_all notSpaceAt a \<and> list_all notSpaceAt b \<and> list_all notSpaceAt c)"
proof -
  have "regex_test emailRegex e \<longleftrightarrow>
      (\<exists>a r1. e = a @ r1 \<and> (a \<noteq> [] \<and> list_all notSpaceAt a) \<and>
         (\<exists>x r2. r1 = x @ r2 \<and> x = ''@'' \<and>
            (\<exists>b r3. r2 = b @ r3 \<and> (b \<noteq> [] \<and> list_all notSpaceAt b) \<and>
               (\<exists>y c. r3 = y @ c \<and> y = ''.'' \<and> c \<noteq> [] \<and> list_all notSpaceAt c))))"
    unfolding regex_test_matches emailRegex_def seq_iff plus_cls cls_iff by simp
  also have "\<dots> \<longleftrightarrow>
     (\<exists>a b c. e = a @ ''@'' @ b @ ''.'' @ c \<and> a \<noteq> [] \<and> b \<noteq> [] \<and> c \<noteq> [] \<and>
        list_all notSpaceAt a \<and> list_all notSpaceAt b \<and> list_all notSpaceAt c)"
    by blast
  finally show ?thesis .
qed

lemma validateAllFields_email:
  assumes "validateAllFields doc" "doc ''editEmail'' = Some f"
  shows "fst (validateField f)"
  using assms by (simp add: validateAllFields_def split: option.splits)

text \<open>
  Claim C10. \<open>validateEmail\<close> accepts a string exactly when it has the shape
  \<open>a@b.c\<close> with \<open>a\<close>, \<open>b\<close>, \<open>c\<close> non-empty and free of white space and \<open>@\<close>, and
  its lower-case form ends with \<open>@paterostechnologicalcollege.edu.ph\<close>; every other
  string is rejected with a message. Hence a form whose email field holds a non-blank
  address outside the college domain does not pass \<open>validateAllFields\<close>.
\<close>

theorem validateEmail_college_domain:
  "(valid (validateEmail e) \<longleftrightarrow>
      (\<exists>a b c. e = a @ ''@'' @ b @ ''.'' @ c \<and> a \<noteq> [] \<and> b \<noteq> [] \<and> c \<noteq> [] \<and>
         list_all notSpaceAt a \<and> list_all notSpaceAt b \<and> list_all notSpaceAt c)
      \<and> endsWith (toLowerCase e) ''@paterostechnologicalcollege.edu.ph'')
   \<and> (\<not> valid (validateEmail e) \<longrightarrow> message_validation (validateEmail e) \<noteq> [])
   \<and> (validateAllFields doc \<and> doc ''editEmail'' = Some f \<and> id_field f = ''editEmail''
        \<and> trim (field_value f) \<noteq> [] \<longrightarrow>
          endsWith (toLowerCase (trim (field_value f))) ''@paterostechnologicalcollege.edu.ph'')"
proof -
  have v: "valid (validateEmail x) \<longleftrightarrow>
      regex_test emailRegex x \<and> endsWith (toLowerCase x) ''@paterostechnologicalcollege.edu.ph''" for x
    by (simp add: validateEmail_def)
  have 1: "valid (validateEmail e) \<longleftrightarrow>
      (\<exists>a b c. e = a @ ''@'' @ b @ ''.'' @ c \<and> a \<noteq> [] \<and> b \<noteq> [] \<and> c \<noteq> [] \<and>
         list_all notSpaceAt a \<and> list_all notSpaceAt b \<and> list_all notSpaceAt c)
      \<and> endsWith (toLowerCase e) ''@paterostechnologicalcollege.edu.ph''"
    unfolding v emailRegex_iff ..
  have 2: "\<not> valid (validateEmail e) \<longrightarrow> message_validation (validateEmail e) \<noteq> []"
    by (simp add: validateEmail_def)
  have 3: "endsWith (toLowerCase (trim (field_value f))) ''@paterostechnologicalcollege.edu.ph''"
    if "validateAllFields doc" "doc ''editEmail'' = Some f" "id_field f = ''editEmail''"
       "trim (field_value f) \<noteq> []"
  proof -
    from validateAllFields_email [OF that(1,2)] that(3,4)
    have "valid (validateEmail (trim (field_value f)))"
      by (auto simp: validateField_def split: if_splits)
    then show ?thesis by (simp add: v)
  qed
  from 1 2 3 show ?thesis by blast
qed

lemma ex_trim: "trim '' Juan.Cruz@PaterosTechnologicalCollege.edu.ph '' = ''Juan.Cruz@PaterosTechnologicalCollege.edu.ph''"
  by (simp add: trim_def isWhiteSpace_def)

lemma ex_lower: "toLowerCase ''Juan.Cruz@PaterosTechnologicalCollege.edu.ph'' = ''juan.cruz@paterostechnologicalcollege.edu.ph''"
  by code_simp

lemma ex_regex: "regex_test emailRegex ''Juan.Cruz@PaterosTechnologicalCollege.edu.ph''"
proof -
  have "''Juan.Cruz@PaterosTechnologicalCollege.edu.ph'' =
        ''Juan.Cruz'' @ ''@'' @ ''PaterosTechnologicalCollege.edu'' @ ''.'' @ ''ph''"
    by simp
  moreover have "list_all notSpaceAt ''Juan.Cruz''"
    "list_all notSpaceAt ''PaterosTechnologicalCollege.edu''" "list_all notSpaceAt ''ph''"
    by (simp_all add: notSpaceAt_def isWhiteSpace_def)
  ultimately show ?thesis
    unfolding emailRegex_iff by blast
qed

lemma ex_valid: "valid (validateEmail ''Juan.Cruz@PaterosTechnologicalCollege.edu.ph'')"
  using ex_regex by (simp add: validateEmail_def ex_lower endsWith_def del: regex_test.simps)

lemma ex_form: "validateAllFields exampleForm"
  by (simp add: validateAllFields_def exampleForm_def validateField_def ex_trim ex_valid)

theorem validateEmail_college_domain_witness:
  "valid (validateEmail ''juan.cruz@paterostechnologicalcollege.edu.ph'')
   \<and> validateAllFields exampleForm
   \<and> endsWith (toLowerCase (trim '' Juan.Cruz@PaterosTechnologicalCollege.edu.ph ''))
        ''@paterostechnologicalcollege.edu.ph''"
proof -
  let ?e = "''juan.cruz@paterostechnologicalcollege.edu.ph''"
  let ?f = "\<lparr>id_field = ''editEmail'', required = True,
             field_value = '' Juan.Cruz@PaterosTechnologicalCollege.edu.ph ''\<rparr>"
  note T = validateEmail_college_domain [of ?e exampleForm ?f]
  have a: "?e = ''juan.cruz'' @ ''@'' @ ''paterostechnologicalcollege.edu'' @ ''.'' @ ''ph''
      \<and> ''juan.cruz'' \<noteq> [] \<and> ''paterostechnologicalcollege.edu'' \<noteq> [] \<and> ''ph'' \<noteq> []
      \<and> list_all notSpaceAt ''juan.cruz'' \<and> list_all notSpaceAt ''paterostechnologicalcollege.edu''
      \<and> list_all notSpaceAt ''ph''"
    by (simp add: notSpaceAt_def isWhiteSpace_def)
  have ex: "\<exists>a b c. ?e = a @ ''@'' @ b @ ''.'' @ c \<and> a \<noteq> [] \<and> b \<noteq> [] \<and> c \<noteq> [] \<and>
         list_all notSpaceAt a \<and> list_all notSpaceAt b \<and> list_all notSpaceAt c"
    using a by blast
  have c: "endsWith (toLowerCase ?e) ''@paterostechnologicalcollege.edu.ph''"
    by code_simp
  from T ex c have v: "valid (validateEmail ?e)" by blast
  have d: "exampleForm ''editEmail'' = Some ?f" "id_field ?f = ''editEmail''"
    "trim (field_value ?f) \<noteq> []"
    by (simp_all add: exampleForm_def ex_trim)
  from T d ex_form have "endsWith (toLowerCase (trim (field_value ?f))) ''@paterostechnologicalcollege.edu.ph''"
    by blast
  then have "endsWith (toLowerCase (trim '' Juan.Cruz@PaterosTechnologicalCollege.edu.ph ''))
        ''@paterostechnologicalcollege.edu.ph''"
    by simp
  with v ex_form show ?thesis by blast
qed

end
